theory Spec2Isabelle
  imports Main
begin

section \<open>Strings\<close>

text \<open>
  A JavaScript string is modelled as a \<^typ>\<open>string\<close>: a list of code units, each below 256
  (the Latin-1 range). On that range \<open>String.prototype.trim\<close> and the regular expression
  class \<open>\s\<close> remove exactly the code units 9 to 13, 32 and 160, and
  \<open>String.prototype.toLowerCase\<close> adds 32 to the code units 65 to 90 and 192 to 222
  (215, the multiplication sign, excepted) and leaves every other code unit unchanged.
\<close>

definition is_space :: "char \<Rightarrow> bool" where
  "is_space c = ((of_char c :: nat) \<in> {9, 10, 11, 12, 13, 32, 160})"

definition is_upper :: "char \<Rightarrow> bool" where
  "is_upper c =
     (let n = (of_char c :: nat)
      in (65 \<le> n \<and> n \<le> 90) \<or> (192 \<le> n \<and> n \<le> 222 \<and> n \<noteq> 215))"

definition to_lower :: "char \<Rightarrow> char" where
  "to_lower c = (if is_upper c then char_of ((of_char c :: nat) + 32) else c)"

definition toLowerCase :: "string \<Rightarrow> string" where
  "toLowerCase s = map to_lower s"

definition trim :: "string \<Rightarrow> string" where
  "trim s = rev (dropWhile is_space (rev (dropWhile is_space s)))"


section \<open>Data model (\<open>src/types.ts\<close>)\<close>

text \<open>
  \<open>ClassificationResult\<close>. The status is kept as the string the language model produced:
  the TypeScript union of five literals is not checked at run time, and the code compares
  the field with string literals.
\<close>

record classification =
  is_job_related :: bool
  status :: string
  summary :: string
  company_name :: string

text \<open>
  \<open>GmailEmailDoc\<close>. The fields \<open>id\<close>, \<open>from\<close>, \<open>to\<close> and \<open>date\<close> carry a prime, their
  names being taken in HOL; the three optional fields are \<open>None\<close> when absent.
\<close>

record email_doc =
  id' :: string
  owner :: string
  from' :: string
  to' :: string
  subject :: string
  date' :: string
  snippet :: string
  body :: string
  labelIds :: "string list"
  fetchedAt :: string
  internalDate :: int
  classification :: "classification option"
  classifiedAt :: "string option"
  createdAt :: "string option"

section \<open>Company query (\<open>src/companyFilter.ts\<close>)\<close>

definition normalizeCompany :: "string \<Rightarrow> string" where
  "normalizeCompany name = toLowerCase (trim name)"

definition filterEmailsByCompany :: "email_doc list \<Rightarrow> string \<Rightarrow> email_doc list" where
  "filterEmailsByCompany emails companyName =
     (let target = normalizeCompany companyName
      in if target = [] then []
         else filter (\<lambda>email.
                case classification email of
                  None \<Rightarrow> False
                | Some c \<Rightarrow>
                    if is_job_related c \<noteq> True then False
                    else if status c = ''not_job_related'' then False
                    else normalizeCompany (company_name c) = target) emails)"

text \<open>
  The match condition in the words of the specification: classification present,
  \<open>is_job_related == true\<close>, \<open>status != not_job_related\<close>, and equality of the trimmed,
  lowercased company names.
\<close>

definition company_match_spec :: "string \<Rightarrow> email_doc \<Rightarrow> bool" where
  "company_match_spec companyName email =
     (case classification email of
        None \<Rightarrow> False
      | Some c \<Rightarrow>
          is_job_related c \<and> status c \<noteq> ''not_job_related'' \<and>
          toLowerCase (trim (company_name c)) = toLowerCase (trim companyName))"

section \<open>Header extraction (\<open>extractHeader\<close> in the server module)\<close>

text \<open>A header of the mailbox API: both fields may be absent or null.\<close>

record header =
  header_name :: "string option"
  header_value :: "string option"

definition extractHeader :: "header list \<Rightarrow> string \<Rightarrow> string" where
  "extractHeader headers name =
     (case find (\<lambda>h. header_name h = Some name) headers of
        Some h \<Rightarrow> (case header_value h of Some v \<Rightarrow> v | None \<Rightarrow> [])
      | None \<Rightarrow> [])"

text \<open>
  The lookup in the words of the specification: the first header whose name equals the
  requested one up to letter case.
\<close>

definition extractHeader_caseless :: "header list \<Rightarrow> string \<Rightarrow> string" where
  "extractHeader_caseless headers name =
     (case find (\<lambda>h. map_option toLowerCase (header_name h) = Some (toLowerCase name)) headers of
        Some h \<Rightarrow> (case header_value h of Some v \<Rightarrow> v | None \<Rightarrow> [])
      | None \<Rightarrow> [])"

section \<open>Classifier transport (\<open>callChat\<close> in the OpenAI client module)\<close>

text \<open>
  A JavaScript value that is a number or a string, as an error's \<open>status\<close> and \<open>code\<close> are;
  \<open>None\<close> stands for \<open>undefined\<close>. \<open>truthy\<close> is JavaScript's conversion to a boolean.
\<close>

datatype js_val = Num int | Str string


text \<open>An \<open>Error\<close> object with the three properties the retry policy reads.\<close>

record js_error =
  err_message :: string
  err_status :: "js_val option"
  err_code :: "js_val option"

text \<open>
  The parts of the response body (\<open>data\<close>) that the code reads: \<open>data?.error?.message\<close>,
  \<open>data?.error?.code\<close> and \<open>data.choices?.[0]?.message?.content\<close>, each \<open>None\<close> when a link
  of the chain is missing or null.
\<close>

record chat_data =
  error_message :: "string option"
  error_code :: "js_val option"
  content :: "string option"

record response =
  http_status :: nat
  data :: chat_data

text \<open>\<open>response.ok\<close>, which the Fetch standard defines as a status from 200 to 299.\<close>

definition response_ok :: "response \<Rightarrow> bool" where
  "response_ok r = (200 \<le> http_status r \<and> http_status r \<le> 299)"

text \<open>
  What one request gives: \<open>fetch\<close> or \<open>response.json()\<close> rejects with an error, or a response
  arrives with a JSON body.
\<close>

datatype fetched = Rejected js_error | Responded response

















section \<open>Document store\<close>

text \<open>
  A container of the document store holds documents addressed by id and partition key (the
  owner, for both containers used here). It is modelled as the list of its documents, with
  the set of addresses whose point read currently fails with an error other than 404.
  Writes are taken to succeed.
\<close>

datatype 'd read_result = Resource 'd | NotFound | ReadError

datatype error = CosmosReadError | OwnerRequired | NoGmailTokens

section \<open>Aggregator (\<open>upsertJobStatus\<close> in the server module)\<close>

text \<open>\<open>CommentEntry\<close>; the field \<open>note\<close> carries a prime, the word being a keyword.\<close>

record CommentEntry =
  date :: string
  note' :: string

text \<open>An element of a stored \<open>comments\<close> array: a legacy string or a \<open>{date, note}\<close> entry.\<close>

datatype comment_item = Legacy string | Entry CommentEntry

text \<open>
  \<open>JobDoc\<close>, as it may be read from the store: a counter may be missing and \<open>comments\<close> may
  be something other than an array (both \<open>None\<close>).
\<close>

record JobDoc =
  job_id :: string
  job_owner :: string
  job_company_name :: string
  applied :: "int option"
  rejected :: "int option"
  next_steps :: "int option"
  comments :: "comment_item list option"
  last_updated :: string

record job_container =
  job_items :: "JobDoc list"
  job_read_fails :: "string \<times> string \<Rightarrow> bool"

text \<open>\<open>jobsContainer.item(id, pk).read()\<close>\<close>

definition read_job :: "job_container \<Rightarrow> string \<Rightarrow> string \<Rightarrow> JobDoc read_result" where
  "read_job c i pk =
     (if job_read_fails c (i, pk) then ReadError
      else case find (\<lambda>d. job_id d = i \<and> job_owner d = pk) (job_items c) of
             Some d \<Rightarrow> Resource d
           | None \<Rightarrow> NotFound)"

fun upsert_job_list :: "JobDoc list \<Rightarrow> JobDoc \<Rightarrow> JobDoc list" where
  "upsert_job_list [] doc = [doc]"
| "upsert_job_list (d # ds) doc =
     (if job_id d = job_id doc \<and> job_owner d = job_owner doc then doc # ds
      else d # upsert_job_list ds doc)"

text \<open>\<open>jobsContainer.items.upsert(doc)\<close>\<close>

definition upsert_job :: "job_container \<Rightarrow> JobDoc \<Rightarrow> job_container" where
  "upsert_job c doc = c\<lparr>job_items := upsert_job_list (job_items c) doc\<rparr>"

text \<open>\<open>s.replace(/\s+/g, '_')\<close>: every maximal run of whitespace becomes one underscore.\<close>

function replace_spaces :: "string \<Rightarrow> string" where
  "replace_spaces [] = []"
| "replace_spaces (c # cs) =
     (if is_space c then CHR ''_'' # replace_spaces (dropWhile is_space cs)
      else c # replace_spaces cs)"
  by pat_completeness auto
termination
  by (relation "measure length") (auto simp: length_dropWhile_le less_Suc_eq_le)

text \<open>
  A counter is a JavaScript number, an IEEE double; the model takes the integer-valued
  doubles and writes them as integers. \<open>x || 0\<close> for a counter \<open>x\<close> that is such a number or
  missing:
\<close>

definition or0 :: "int option \<Rightarrow> int" where
  "or0 x = (case x of Some n \<Rightarrow> n | None \<Rightarrow> 0)"

text \<open>
  \<open>n + 1\<close> for an integer-valued double \<open>n\<close>. The sum is exact when \<open>n\<close> is from \<open>-2^53\<close> to
  \<open>2^53 - 1\<close>. Beyond, the doubles up to magnitude \<open>2^54\<close> are the even integers and \<open>n + 1\<close>
  lies half way between \<open>n\<close> and \<open>n + 2\<close>: it is rounded to the one with the even significand,
  which is \<open>n\<close> when 4 divides \<open>n\<close>. Farther out \<open>n + 1\<close> is nearest to \<open>n\<close> itself.
\<close>

definition plus1 :: "int \<Rightarrow> int" where
  "plus1 n =
     (if - (2 ^ 53) \<le> n \<and> n < 2 ^ 53 then n + 1
      else if - (2 ^ 54) \<le> n \<and> n < 2 ^ 54 then (if n mod 4 = 0 then n else n + 2)
      else n)"

text \<open>The rollup created when none is stored.\<close>

definition new_JobDoc :: "string \<Rightarrow> string \<Rightarrow> string \<Rightarrow> string \<Rightarrow> JobDoc" where
  "new_JobDoc docId ownerEmail companyName today =
     \<lparr>job_id = docId, job_owner = ownerEmail, job_company_name = companyName,
      applied = Some 0, rejected = Some 0, next_steps = Some 0, comments = Some [],
      last_updated = today\<rparr>"

text \<open>\<open>String(note)\<close> for an element of a stored \<open>comments\<close> array.\<close>

definition String_of :: "comment_item \<Rightarrow> string" where
  "String_of c = (case c of Legacy s \<Rightarrow> s | Entry e \<Rightarrow> ''[object Object]'')"

text \<open>
  The normalisation of \<open>doc.comments\<close>: something that is not an array becomes the empty
  array; an array whose first element is a string is mapped to entries dated today.
\<close>

definition upgrade_comments :: "string \<Rightarrow> comment_item list option \<Rightarrow> comment_item list" where
  "upgrade_comments today cs =
     (case cs of
        None \<Rightarrow> []
      | Some [] \<Rightarrow> []
      | Some (Legacy s # rest) \<Rightarrow>
          map (\<lambda>n. Entry \<lparr>date = today, note' = String_of n\<rparr>) (Legacy s # rest)
      | Some (Entry e # rest) \<Rightarrow> Entry e # rest)"

text \<open>
  The mutation of the loaded or fresh rollup: normalise \<open>doc.comments\<close>, apply exactly one
  branch of the status chain, set \<open>last_updated\<close>.
\<close>

definition apply_status :: "classification \<Rightarrow> string \<Rightarrow> JobDoc \<Rightarrow> JobDoc" where
  "apply_status cl today doc0 =
     (let cs = upgrade_comments today (comments doc0);
          doc = doc0\<lparr>comments := Some cs\<rparr>;
          doc =
            (if status cl = ''applied''
             then doc\<lparr>applied := Some (plus1 (or0 (applied doc)))\<rparr>
             else if status cl = ''rejected''
             then doc\<lparr>rejected := Some (plus1 (or0 (rejected doc)))\<rparr>
             else if status cl = ''next_steps''
             then doc\<lparr>next_steps := Some (plus1 (or0 (next_steps doc)))\<rparr>
             else if status cl = ''comment_only''
             then doc\<lparr>comments :=
                    Some (cs @ [Entry \<lparr>date = today, note' = take 280 (summary cl)\<rparr>])\<rparr>
             else doc)
      in doc\<lparr>last_updated := today\<rparr>)"

text \<open>
  \<open>upsertJobStatus\<close>. \<open>today\<close> is \<open>new Date().toISOString().slice(0, 10)\<close>. The result is the
  error thrown (\<open>Inl\<close>), or the value returned (\<open>None\<close> for \<open>null\<close>) with the container as the
  call leaves it. A read that yields no resource and a read that fails with 404 both give
  \<open>NotFound\<close>, and both lead to a fresh rollup.
\<close>

definition upsertJobStatus ::
  "job_container option \<Rightarrow> string \<Rightarrow> classification option \<Rightarrow> string
     \<Rightarrow> error + (JobDoc option \<times> job_container option)"
where
  "upsertJobStatus jobsContainer ownerRaw classification' today =
     (case jobsContainer of
        None \<Rightarrow> Inr (None, None)
      | Some jobs \<Rightarrow>
     (case classification' of
        None \<Rightarrow> Inr (None, jobsContainer)
      | Some cl \<Rightarrow>
     (let companyName = trim (company_name cl);
          ownerEmail = toLowerCase (trim ownerRaw)
      in if companyName = [] then Inr (None, jobsContainer)
         else if ownerEmail = [] then Inr (None, jobsContainer)
         else if \<not> is_job_related cl \<or> status cl = ''not_job_related''
                 \<or> status cl \<notin> set [''applied'', ''rejected'', ''next_steps'', ''comment_only'']
         then Inr (None, jobsContainer)
         else
           let pk = ownerEmail;
               companySlug = replace_spaces (toLowerCase companyName);
               docId = ownerEmail @ ''::'' @ companySlug
           in (case read_job jobs docId pk of
                 ReadError \<Rightarrow> Inl CosmosReadError
               | r \<Rightarrow>
                   let doc = (case r of Resource d \<Rightarrow> d
                              | _ \<Rightarrow> new_JobDoc docId ownerEmail companyName today);
                       doc = apply_status cl today doc
                   in Inr (Some doc, Some (upsert_job jobs doc))))))"

section \<open>Observations of the rollup store used in the claims\<close>

text \<open>The address (document id and partition key) of the rollup of an owner and a company.\<close>

definition rollup_key :: "string \<Rightarrow> classification \<Rightarrow> string \<times> string" where
  "rollup_key ownerRaw cl =
     (toLowerCase (trim ownerRaw) @ ''::''
        @ replace_spaces (toLowerCase (trim (company_name cl))),
      toLowerCase (trim ownerRaw))"

text \<open>The counter that a status names, read as the code reads it (\<open>x || 0\<close>).\<close>

definition counter_of :: "string \<Rightarrow> JobDoc \<Rightarrow> int" where
  "counter_of s d =
     (if s = ''applied'' then or0 (applied d)
      else if s = ''rejected'' then or0 (rejected d)
      else if s = ''next_steps'' then or0 (next_steps d)
      else 0)"

text \<open>The same counter of the stored rollup at an address, 0 when no rollup is stored.\<close>

definition stored_counter :: "job_container \<Rightarrow> string \<times> string \<Rightarrow> string \<Rightarrow> int" where
  "stored_counter jobs k s =
     (case read_job jobs (fst k) (snd k) of Resource d \<Rightarrow> counter_of s d | _ \<Rightarrow> 0)"

text \<open>The comments of the stored rollup at an address, none when no rollup is stored.\<close>

definition stored_comments :: "job_container \<Rightarrow> string \<times> string \<Rightarrow> comment_item list option" where
  "stored_comments jobs k =
     (case read_job jobs (fst k) (snd k) of Resource d \<Rightarrow> comments d | _ \<Rightarrow> Some [])"

text \<open>
  The skip conditions in the words of the specification: \<open>is_job_related\<close> false, status
  \<open>not_job_related\<close>, status outside the four actionable values, company name blank after
  trimming, owner blank after trimming.
\<close>

definition skips :: "string \<Rightarrow> classification \<Rightarrow> bool" where
  "skips ownerRaw cl =
     (\<not> is_job_related cl \<or> status cl = ''not_job_related''
      \<or> status cl \<notin> {''applied'', ''rejected'', ''next_steps'', ''comment_only''}
      \<or> trim (company_name cl) = [] \<or> trim ownerRaw = [])"

section \<open>Classifier (\<open>classifyEmail\<close> in the server module)\<close>

text \<open>
  \<open>classifyEmail\<close> sends one request and parses the content of the reply. \<open>reply\<close> is what
  the request gives if it is sent. \<open>JSON_parse\<close> is \<open>JSON.parse\<close> on the content text, \<open>None\<close>
  when it throws; its result is returned as it is, cast to \<open>ClassificationResult\<close> without
  any check, so the type \<open>'r\<close> of parsed values is left open. The result is the value
  returned (\<open>None\<close> for the \<open>null\<close> of the early return and of the \<open>catch\<close> block) and the
  number of requests sent.
\<close>

definition classifyEmail ::
  "string option \<Rightarrow> (string \<Rightarrow> 'r option) \<Rightarrow> fetched \<Rightarrow> 'r option \<times> nat"
where
  "classifyEmail OPENAI_API_KEY JSON_parse reply =
     (if OPENAI_API_KEY = None \<or> OPENAI_API_KEY = Some [] then (None, 0)
      else
        (case reply of
           Rejected err \<Rightarrow> (None, 1)
         | Responded r \<Rightarrow>
             if \<not> response_ok r then (None, 1)
             else (case content (data r) of
                     None \<Rightarrow> (None, 1)
                   | Some message \<Rightarrow>
                       if message = [] then (None, 1) else (JSON_parse message, 1))))"

text \<open>The user message of the request, built from the stored document.\<close>

definition user_content :: "email_doc \<Rightarrow> string" where
  "user_content emailDoc =
     ''Subject: '' @ (if subject emailDoc \<noteq> [] then subject emailDoc else ''(no subject)'')
     @ [CHR 0x0A] @ ''From: '' @ (if from' emailDoc \<noteq> [] then from' emailDoc else ''unknown'')
     @ [CHR 0x0A, CHR 0x0A] @ ''Body:'' @ [CHR 0x0A]
     @ (if body emailDoc \<noteq> [] then body emailDoc else snippet emailDoc)"

text \<open>JSON values, for the parsed content before the cast.\<close>

datatype json =
  JNull | JBool bool | JNum int | JStr string | JArr "json list" | JObj "(string \<times> json) list"

text \<open>
  Conformance to \<open>ClassificationResult\<close> of \<open>src/types.ts\<close>: an object with a boolean
  \<open>is_job_related\<close>, a \<open>status\<close> among the five literals, and strings \<open>summary\<close> and
  \<open>company_name\<close>.
\<close>

definition conforms :: "json \<Rightarrow> bool" where
  "conforms v =
     (case v of
        JObj kvs \<Rightarrow>
          (case map_of kvs ''is_job_related'' of Some (JBool b) \<Rightarrow> True | _ \<Rightarrow> False)
          \<and> (case map_of kvs ''status'' of
                Some (JStr s) \<Rightarrow>
                  s \<in> set [''applied'', ''rejected'', ''next_steps'', ''comment_only'',
                            ''not_job_related'']
              | _ \<Rightarrow> False)
          \<and> (case map_of kvs ''summary'' of Some (JStr s) \<Rightarrow> True | _ \<Rightarrow> False)
          \<and> (case map_of kvs ''company_name'' of Some (JStr s) \<Rightarrow> True | _ \<Rightarrow> False)
      | _ \<Rightarrow> False)"

text \<open>A result that is JavaScript's \<open>null\<close>: returned as such, or parsed from the text \<open>null\<close>.\<close>

definition is_null :: "json option \<Rightarrow> bool" where
  "is_null res = (res = None \<or> res = Some JNull)"

text \<open>
  Failure of the call in the words of the specification: a transport error, a response
  that is not 2xx, empty content, content that is not parseable JSON, or parsed JSON that
  does not conform to the schema.
\<close>

definition call_failed_spec :: "(string \<Rightarrow> json option) \<Rightarrow> fetched \<Rightarrow> bool" where
  "call_failed_spec JSON_parse reply =
     (case reply of
        Rejected err \<Rightarrow> True
      | Responded r \<Rightarrow>
          \<not> response_ok r
          \<or> (case content (data r) of
                None \<Rightarrow> True
              | Some message \<Rightarrow>
                  message = []
                  \<or> (case JSON_parse message of None \<Rightarrow> True | Some v \<Rightarrow> \<not> conforms v)))"

text \<open>
  The conditions under which the code returns \<open>null\<close>: no API key, a transport error, a
  response that is not 2xx, empty content, content that is not parseable JSON, or content
  that is the JSON text \<open>null\<close>.
\<close>

definition gives_null :: "string option \<Rightarrow> (string \<Rightarrow> json option) \<Rightarrow> fetched \<Rightarrow> bool" where
  "gives_null OPENAI_API_KEY JSON_parse reply =
     (OPENAI_API_KEY = None \<or> OPENAI_API_KEY = Some []
      \<or> (case reply of
            Rejected err \<Rightarrow> True
          | Responded r \<Rightarrow>
              \<not> response_ok r
              \<or> (case content (data r) of
                    None \<Rightarrow> True
                  | Some message \<Rightarrow>
                      message = [] \<or> JSON_parse message = None
                      \<or> JSON_parse message = Some JNull)))"

text \<open>The content of a reply that is 2xx and carries content.\<close>

definition reply_content :: "fetched \<Rightarrow> string" where
  "reply_content reply =
     (case reply of
        Rejected err \<Rightarrow> []
      | Responded r \<Rightarrow> (case content (data r) of None \<Rightarrow> [] | Some message \<Rightarrow> message))"

section \<open>Sync engine (\<open>fetchAndStoreGmailEmails\<close> in the server module)\<close>

record email_container =
  email_items :: "email_doc list"
  email_read_fails :: "string \<times> string \<Rightarrow> bool"

text \<open>\<open>emailContainer.item(id, pk).read()\<close>\<close>

definition read_email :: "email_container \<Rightarrow> string \<Rightarrow> string \<Rightarrow> email_doc read_result" where
  "read_email c i pk =
     (if email_read_fails c (i, pk) then ReadError
      else case find (\<lambda>d. id' d = i \<and> owner d = pk) (email_items c) of
             Some d \<Rightarrow> Resource d
           | None \<Rightarrow> NotFound)"

fun upsert_email_list :: "email_doc list \<Rightarrow> email_doc \<Rightarrow> email_doc list" where
  "upsert_email_list [] doc = [doc]"
| "upsert_email_list (d # ds) doc =
     (if id' d = id' doc \<and> owner d = owner doc then doc # ds
      else d # upsert_email_list ds doc)"

text \<open>\<open>emailContainer.items.upsert(doc)\<close>; the resource it returns is the document written.\<close>

definition upsert_email :: "email_container \<Rightarrow> email_doc \<Rightarrow> email_container" where
  "upsert_email c doc = c\<lparr>email_items := upsert_email_list (email_items c) doc\<rparr>"

subsection \<open>Cursor store (\<open>src/gmailStateStore.ts\<close>)\<close>

definition is_alnum :: "char \<Rightarrow> bool" where
  "is_alnum c =
     (let n = (of_char c :: nat)
      in (48 \<le> n \<and> n \<le> 57) \<or> (65 \<le> n \<and> n \<le> 90) \<or> (97 \<le> n \<and> n \<le> 122))"

text \<open>
  \<open>ownerEmail.replace(/[^a-z0-9]/gi, '-').toLowerCase()\<close>. The check that throws on an empty
  owner is left out: the sync engine has returned before when the owner is empty.
\<close>

definition slugify :: "string \<Rightarrow> string" where
  "slugify ownerEmail = toLowerCase (map (\<lambda>c. if is_alnum c then c else CHR ''-'') ownerEmail)"

definition secretName :: "string \<Rightarrow> string" where
  "secretName ownerEmail = ''gmail-state-'' @ slugify ownerEmail"

text \<open>The stored state of an owner, as parsed from the secret's value.\<close>

record gmail_state =
  stored_lastInternalDateMs :: "int option"

text \<open>\<open>loadState\<close>: \<open>None\<close> when the secret is not found.\<close>

definition loadState :: "(string \<Rightarrow> gmail_state option) \<Rightarrow> string \<Rightarrow> gmail_state option" where
  "loadState secrets ownerEmail = secrets (secretName ownerEmail)"

text \<open>\<open>saveState(ownerEmail, { lastInternalDateMs })\<close>: the partial state is merged in.\<close>

definition saveState ::
  "(string \<Rightarrow> gmail_state option) \<Rightarrow> string \<Rightarrow> int \<Rightarrow> (string \<Rightarrow> gmail_state option)"
where
  "saveState secrets ownerEmail v =
     (let current = (case loadState secrets ownerEmail of
                       Some s \<Rightarrow> s
                     | None \<Rightarrow> \<lparr>stored_lastInternalDateMs = None\<rparr>);
          next = current\<lparr>stored_lastInternalDateMs := Some v\<rparr>
      in secrets(secretName ownerEmail \<mapsto> next))"

subsection \<open>The mailbox, the environment and the state of a run\<close>

text \<open>
  The full representation of a message (\<open>data\<close> of \<open>messages.get\<close>), as far as the code reads
  it: \<open>data.id || ''\<close>, the headers of the payload, \<open>Number(data.internalDate)\<close> (\<open>None\<close> for
  \<open>NaN\<close>), \<open>data.snippet || ''\<close>, the text that \<open>extractMessageBody\<close> finds in the payload,
  and the label ids.
\<close>

record gmail_message =
  msg_id :: string
  msg_headers :: "header list"
  msg_internalDate :: "int option"
  msg_snippet :: string
  msg_body :: string
  msg_labelIds :: "string list"

text \<open>
  The query sent to the mailbox: the trimmed override, \<open>after:<seconds>\<close>, or
  \<open>newer_than:7d\<close>.
\<close>

datatype gmail_query = Override string | After int | NewerThan7d

record sync_options =
  queryOverride :: string
  skipStateUpdate :: bool

text \<open>
  What a run reads and does not change: the API key, \<open>JSON.parse\<close> on the classifier's
  content, the reply to a classifier request with a given user message, the clock
  (\<open>Date.now()\<close> and \<open>new Date().toISOString()\<close>, taken as constant during the run), whether
  the token store holds tokens for an owner, and the pages of messages that the mailbox
  lists for a query, up to the page that carries no continuation token.
\<close>

record env =
  api_key :: "string option"
  json_parse :: "string \<Rightarrow> classification option"
  fetch_reply :: "string \<Rightarrow> fetched"
  now_ms :: int
  now_iso :: string
  has_tokens :: "string \<Rightarrow> bool"
  list_messages :: "gmail_query \<Rightarrow> gmail_message list list"

text \<open>
  What a run may change: the two containers (\<open>None\<close> for \<open>null\<close>), the cursor store, and two
  logs, of the ids of the documents for which \<open>classifyEmail\<close> was called and of those for
  which a request was sent.
\<close>

record world =
  emailContainer :: "email_container option"
  jobsContainer :: "job_container option"
  secrets :: "string \<Rightarrow> gmail_state option"
  classifier_calls :: "string list"
  requests :: "string list"

record sync_result =
  fetched :: nat
  result_owner :: "string option"

subsection \<open>\<open>classifyEmailAndUpsert\<close>\<close>

text \<open>An error thrown by \<open>upsertJobStatus\<close> is caught and logged.\<close>

definition classifyEmailAndUpsert ::
  "env \<Rightarrow> email_doc \<Rightarrow> world \<Rightarrow> classification option \<times> world"
where
  "classifyEmailAndUpsert e emailDoc w =
     (case jobsContainer w of
        None \<Rightarrow> (None, w)
      | Some jobs \<Rightarrow>
          let ownerEmail = toLowerCase (trim (owner emailDoc))
          in if ownerEmail = [] then (None, w)
             else
               let (result, n) =
                     classifyEmail (api_key e) (json_parse e)
                       (fetch_reply e (user_content emailDoc));
                   w = w\<lparr>classifier_calls := classifier_calls w @ [id' emailDoc],
                          requests := requests w @ replicate n (id' emailDoc)\<rparr>
               in (case result of
                     None \<Rightarrow> (None, w)
                   | Some cl \<Rightarrow>
                       (case upsertJobStatus (Some jobs) ownerEmail (Some cl)
                               (take 10 (now_iso e)) of
                          Inl err \<Rightarrow> (Some cl, w)
                        | Inr (d, jobs') \<Rightarrow> (Some cl, w\<lparr>jobsContainer := jobs'\<rparr>))))"

subsection \<open>The body of the message loop\<close>

text \<open>\<open>Number(data.internalDate) || Date.now()\<close>\<close>

definition internalDateMs :: "env \<Rightarrow> gmail_message \<Rightarrow> int" where
  "internalDateMs e m =
     (case msg_internalDate m of Some n \<Rightarrow> if n \<noteq> 0 then n else now_ms e | None \<Rightarrow> now_ms e)"

text \<open>The document built from the fetched message.\<close>

definition new_doc :: "env \<Rightarrow> string \<Rightarrow> gmail_message \<Rightarrow> email_doc" where
  "new_doc e ownerEmail m =
     \<lparr>id' = msg_id m,
      owner = ownerEmail,
      from' = (if extractHeader (msg_headers m) ''From'' \<noteq> []
               then extractHeader (msg_headers m) ''From'' else ''unknown''),
      to' = extractHeader (msg_headers m) ''To'',
      subject = (if extractHeader (msg_headers m) ''Subject'' \<noteq> []
                 then extractHeader (msg_headers m) ''Subject'' else ''(No subject)''),
      date' = extractHeader (msg_headers m) ''Date'',
      snippet = msg_snippet m,
      body = (if msg_body m \<noteq> [] then msg_body m else msg_snippet m),
      labelIds = msg_labelIds m,
      fetchedAt = now_iso e,
      internalDate = internalDateMs e m,
      classification = None,
      classifiedAt = None,
      createdAt = None\<rparr>"

text \<open>
  The carry-forward from the stored document, when the lookup found one:
  \<open>doc.createdAt = existingDoc.createdAt || doc.fetchedAt\<close>.
\<close>

definition carry_forward :: "email_doc option \<Rightarrow> email_doc \<Rightarrow> email_doc" where
  "carry_forward existingDoc doc =
     (case existingDoc of
        None \<Rightarrow> doc
      | Some ex \<Rightarrow>
          doc\<lparr>classification := classification ex,
              classifiedAt := classifiedAt ex,
              createdAt :=
                Some (case createdAt ex of
                        Some c \<Rightarrow> if c \<noteq> [] then c else fetchedAt doc
                      | None \<Rightarrow> fetchedAt doc)\<rparr>)"

text \<open>
  One iteration of the loop over the messages of a page, on the state of the run, the
  running \<open>maxInternalDate\<close> and the list \<open>docs\<close>. A lookup error other than 404 is logged and
  leaves \<open>existingDoc\<close> null. The branch for a missing container is never taken: the function
  has returned before the loop.
\<close>

definition process_message ::
  "env \<Rightarrow> string \<Rightarrow> gmail_message \<Rightarrow> world \<times> int \<times> email_doc list
     \<Rightarrow> world \<times> int \<times> email_doc list"
where
  "process_message e ownerEmail m acc =
     (case acc of (w, maxInternalDate, docs) \<Rightarrow>
      (case emailContainer w of
         None \<Rightarrow> acc
       | Some ec \<Rightarrow>
           let doc = new_doc e ownerEmail m;
               maxInternalDate =
                 (if internalDate doc > maxInternalDate then internalDate doc
                  else maxInternalDate);
               existingDoc =
                 (case read_email ec (id' doc) ownerEmail of
                    Resource d \<Rightarrow> Some d
                  | NotFound \<Rightarrow> None
                  | ReadError \<Rightarrow> None);
               doc = carry_forward existingDoc doc;
               ec = upsert_email ec doc;
               w = w\<lparr>emailContainer := Some ec\<rparr>;
               alreadyClassified =
                 (case classification doc of Some c \<Rightarrow> status c \<noteq> [] | None \<Rightarrow> False)
           in if \<not> alreadyClassified \<and> jobsContainer w \<noteq> None
                 \<and> api_key e \<noteq> None \<and> api_key e \<noteq> Some []
              then
                (case classifyEmailAndUpsert e doc w of
                   (Some cl, w) \<Rightarrow>
                     let doc = doc\<lparr>classification := Some cl,
                                    classifiedAt := Some (now_iso e)\<rparr>;
                         w = w\<lparr>emailContainer := Some (upsert_email ec doc)\<rparr>
                     in (w, maxInternalDate, docs @ [doc])
                 | (None, w) \<Rightarrow> (w, maxInternalDate, docs @ [doc]))
              else (w, maxInternalDate, docs @ [doc])))"

subsection \<open>The run\<close>

text \<open>
  \<open>fetchAndStoreGmailEmails\<close>. \<open>oauthClient\<close> tells whether the caller passed a client. The
  result is the error thrown or the value returned, with the state as the call leaves it;
  both errors are thrown before anything is written. \<open>start\<close> names the value of
  \<open>lastInternalDateMs || 0\<close>, with which \<open>maxInternalDate\<close> starts and with which it is
  compared at the end.
\<close>

definition fetchAndStoreGmailEmails ::
  "env \<Rightarrow> bool \<Rightarrow> string \<Rightarrow> sync_options \<Rightarrow> world \<Rightarrow> (error + sync_result) \<times> world"
where
  "fetchAndStoreGmailEmails e oauthClient ownerRaw options w =
     (let ownerEmail = toLowerCase (trim ownerRaw)
      in if ownerEmail = [] then (Inl OwnerRequired, w)
         else if emailContainer w = None then (Inr \<lparr>fetched = 0, result_owner = None\<rparr>, w)
         else
           let useState = (queryOverride options = [])
           in if \<not> oauthClient \<and> \<not> has_tokens e ownerEmail then (Inl NoGmailTokens, w)
              else
                let lastInternalDateMs =
                      (if useState then
                         (case loadState (secrets w) ownerEmail of
                            None \<Rightarrow> None
                          | Some s \<Rightarrow>
                              (case stored_lastInternalDateMs s of
                                 None \<Rightarrow> None
                               | Some n \<Rightarrow> if n \<noteq> 0 then Some n else None))
                       else None);
                    gmailQuery =
                      (if queryOverride options \<noteq> [] then Override (trim (queryOverride options))
                       else (case lastInternalDateMs of
                               Some n \<Rightarrow> After (n div 1000)
                             | None \<Rightarrow> NewerThan7d));
                    start = (case lastInternalDateMs of Some n \<Rightarrow> n | None \<Rightarrow> 0);
                    (w, maxInternalDate, docs) =
                      foldl (\<lambda>acc messages.
                               foldl (\<lambda>acc m. process_message e ownerEmail m acc) acc messages)
                        (w, start, []) (list_messages e gmailQuery)
                in if docs = [] then (Inr \<lparr>fetched = 0, result_owner = Some ownerEmail\<rparr>, w)
                   else
                     let w = (if useState \<and> \<not> skipStateUpdate options \<and> maxInternalDate > start
                              then w\<lparr>secrets := saveState (secrets w) ownerEmail maxInternalDate\<rparr>
                              else w)
                     in (Inr \<lparr>fetched = length docs, result_owner = Some ownerEmail\<rparr>, w))"

section \<open>Observations of the cursor store and the mail store used in the claims\<close>

text \<open>The stored cursor of an owner, 0 when none is stored.\<close>

definition cursor :: "world \<Rightarrow> string \<Rightarrow> int" where
  "cursor w ownerEmail =
     (case loadState (secrets w) ownerEmail of
        None \<Rightarrow> 0
      | Some s \<Rightarrow> (case stored_lastInternalDateMs s of None \<Rightarrow> 0 | Some n \<Rightarrow> n))"

text \<open>The query of an incremental run.\<close>

definition incremental_query :: "world \<Rightarrow> string \<Rightarrow> gmail_query" where
  "incremental_query w ownerEmail =
     (if cursor w ownerEmail \<noteq> 0 then After (cursor w ownerEmail div 1000) else NewerThan7d)"

text \<open>The largest \<open>internalDateMs\<close> among messages, and a start value.\<close>

definition observed_max :: "env \<Rightarrow> int \<Rightarrow> gmail_message list \<Rightarrow> int" where
  "observed_max e start ms = Max (insert start (internalDateMs e ` set ms))"

text \<open>The classification of the stored message at an address, \<open>None\<close> when there is none.\<close>

definition stored_classification :: "world \<Rightarrow> string \<Rightarrow> string \<Rightarrow> classification option" where
  "stored_classification w i pk =
     (case emailContainer w of
        None \<Rightarrow> None
      | Some ec \<Rightarrow>
          (case find (\<lambda>d. id' d = i \<and> owner d = pk) (email_items ec) of
             None \<Rightarrow> None
           | Some d \<Rightarrow> classification d))"

section \<open>Evaluation of the string functions on literals\<close>

lemmas string_eval =
  is_space_def is_upper_def to_lower_def toLowerCase_def trim_def normalizeCompany_def
  char_of_def bit_Suc_0_iff

lemma trim_eq_Nil_iff: "trim s = [] \<longleftrightarrow> (\<forall>c \<in> set s. is_space c)"
proof -
  have "(\<forall>x \<in> set (dropWhile is_space s). is_space x) \<longleftrightarrow> dropWhile is_space s = []"
  proof (cases "dropWhile is_space s = []")
    case True
    then show ?thesis by (auto dest: set_dropWhileD)
  next
    case False
    then have "\<not> is_space (hd (dropWhile is_space s))" by (rule hd_dropWhile)
    moreover have "hd (dropWhile is_space s) \<in> set (dropWhile is_space s)"
      using False by simp
    ultimately show ?thesis using False by blast
  qed
  then show ?thesis by (simp add: trim_def)
qed

lemma normalizeCompany_eq_Nil_iff: "normalizeCompany s = [] \<longleftrightarrow> trim s = []"
  by (simp add: normalizeCompany_def toLowerCase_def)

section \<open>Company query: the claims\<close>

lemma filterEmailsByCompany_acme:
  "filterEmailsByCompany
     [\<lparr>id' = ''1'', owner = ''u'', from' = [], to' = [], subject = [], date' = [], snippet = [],
       body = [], labelIds = [], fetchedAt = [], internalDate = 1,
       classification = Some \<lparr>is_job_related = True, status = ''applied'', summary = [],
         company_name = ''Acme''\<rparr>, classifiedAt = None, createdAt = None\<rparr>,
      \<lparr>id' = ''2'', owner = ''u'', from' = [], to' = [], subject = [], date' = [], snippet = [],
       body = [], labelIds = [], fetchedAt = [], internalDate = 2,
       classification = Some \<lparr>is_job_related = True, status = ''applied'', summary = [],
         company_name = ''Acme Inc''\<rparr>, classifiedAt = None, createdAt = None\<rparr>]
     ''acme''
   = [\<lparr>id' = ''1'', owner = ''u'', from' = [], to' = [], subject = [], date' = [], snippet = [],
       body = [], labelIds = [], fetchedAt = [], internalDate = 1,
       classification = Some \<lparr>is_job_related = True, status = ''applied'', summary = [],
         company_name = ''Acme''\<rparr>, classifiedAt = None, createdAt = None\<rparr>]"
  by (simp add: filterEmailsByCompany_def string_eval)

text \<open>
  C8, as stated, fails for a blank company name: the early return gives the empty list,
  while a stored message whose classified company name is blank satisfies the stated
  condition.
\<close>

theorem filterEmailsByCompany_blank_counterexample:
  "filterEmailsByCompany
     [\<lparr>id' = ''3'', owner = ''u'', from' = [], to' = [], subject = [], date' = [], snippet = [],
       body = [], labelIds = [], fetchedAt = [], internalDate = 3,
       classification = Some \<lparr>is_job_related = True, status = ''applied'', summary = [],
         company_name = []\<rparr>, classifiedAt = None, createdAt = None\<rparr>] []
   \<noteq> filter (company_match_spec [])
     [\<lparr>id' = ''3'', owner = ''u'', from' = [], to' = [], subject = [], date' = [], snippet = [],
       body = [], labelIds = [], fetchedAt = [], internalDate = 3,
       classification = Some \<lparr>is_job_related = True, status = ''applied'', summary = [],
         company_name = []\<rparr>, classifiedAt = None, createdAt = None\<rparr>]"
  by (simp add: filterEmailsByCompany_def company_match_spec_def string_eval)

text \<open>
  C8 (amended): for a company name that is blank after trimming \<open>filterEmailsByCompany\<close>
  returns no message; for every other company name it returns, in their order, exactly the
  messages that have a classification with \<open>is_job_related\<close> true, a status other than
  \<open>not_job_related\<close>, and a company name equal to the query after trimming and lowercasing
  both.
\<close>

theorem filterEmailsByCompany_exact:
  "filterEmailsByCompany emails companyName =
     (if trim companyName = [] then [] else filter (company_match_spec companyName) emails)"
proof -
  have "(\<lambda>email. case classification email of
            None \<Rightarrow> False
          | Some c \<Rightarrow>
              if is_job_related c \<noteq> True then False
              else if status c = ''not_job_related'' then False
              else normalizeCompany (company_name c) = normalizeCompany companyName)
        = company_match_spec companyName"
    by (auto simp: fun_eq_iff company_match_spec_def normalizeCompany_def split: option.splits)
  then show ?thesis
    by (simp add: filterEmailsByCompany_def Let_def normalizeCompany_eq_Nil_iff)
qed

section \<open>Header extraction: the claims\<close>

text \<open>
  C5, as stated, fails: the lookup compares names with strict equality, so a request for
  \<open>From\<close> does not find a header named \<open>from\<close>.
\<close>

theorem extractHeader_caseless_counterexample:
  "extractHeader [\<lparr>header_name = Some ''from'', header_value = Some ''a@x.com''\<rparr>] ''From''
   \<noteq> extractHeader_caseless
       [\<lparr>header_name = Some ''from'', header_value = Some ''a@x.com''\<rparr>] ''From''"
  by (simp add: extractHeader_def extractHeader_caseless_def string_eval)

text \<open>
  C5 (amended): the lookup is exact in the header name, letter case included. When some
  header carries exactly the requested name, the result is the value of the first such
  header (the empty string when that value is absent); when none does, the result is the
  empty string, whatever headers match up to letter case.
\<close>

theorem extractHeader_exact:
  "(header_name h = Some name \<and> (\<forall>g \<in> set pre. header_name g \<noteq> Some name)
      \<longrightarrow> extractHeader (pre @ h # post) name
            = (case header_value h of Some v \<Rightarrow> v | None \<Rightarrow> []))
   \<and> ((\<forall>g \<in> set headers. header_name g \<noteq> Some name) \<longrightarrow> extractHeader headers name = [])"
proof (intro conjI impI)
  assume a: "header_name h = Some name \<and> (\<forall>g \<in> set pre. header_name g \<noteq> Some name)"
  then have "find (\<lambda>h. header_name h = Some name) (pre @ h # post) = Some h"
    by (induction pre) auto
  then show "extractHeader (pre @ h # post) name
      = (case header_value h of Some v \<Rightarrow> v | None \<Rightarrow> [])"
    by (simp add: extractHeader_def)
next
  assume "\<forall>g \<in> set headers. header_name g \<noteq> Some name"
  then have "find (\<lambda>h. header_name h = Some name) headers = None"
    by (simp add: find_None_iff)
  then show "extractHeader headers name = []"
    by (simp add: extractHeader_def)
qed

theorem extractHeader_exact_witness:
  "extractHeader
     ([\<lparr>header_name = Some ''from'', header_value = Some ''lower''\<rparr>]
      @ \<lparr>header_name = Some ''From'', header_value = Some ''a@x.com''\<rparr>
      # [\<lparr>header_name = Some ''From'', header_value = Some ''second''\<rparr>]) ''From'' = ''a@x.com''
   \<and> extractHeader [\<lparr>header_name = Some ''FROM'', header_value = Some ''a@x.com''\<rparr>] ''From'' = []"
  using extractHeader_exact
    [of "\<lparr>header_name = Some ''From'', header_value = Some ''a@x.com''\<rparr>" "''From''"
        "[\<lparr>header_name = Some ''from'', header_value = Some ''lower''\<rparr>]"
        "[\<lparr>header_name = Some ''From'', header_value = Some ''second''\<rparr>]"
        "[\<lparr>header_name = Some ''FROM'', header_value = Some ''a@x.com''\<rparr>]"]
  by simp

section \<open>Classifier transport: the claims\<close>











section \<open>Aggregator: the claims\<close>

lemma find_upsert_job_list:
  "find (\<lambda>d. job_id d = job_id doc \<and> job_owner d = job_owner doc) (upsert_job_list ds doc) = Some doc"
  by (induction ds) auto

lemma read_job_upsert_job:
  "\<not> job_read_fails jobs (job_id doc, job_owner doc) \<Longrightarrow>
     read_job (upsert_job jobs doc) (job_id doc) (job_owner doc) = Resource doc"
  by (simp add: read_job_def upsert_job_def find_upsert_job_list)

lemma job_read_fails_upsert_job: "job_read_fails (upsert_job jobs doc) = job_read_fails jobs"
  by (simp add: upsert_job_def)

lemma read_job_Resource_key:
  "read_job jobs i pk = Resource d \<Longrightarrow> job_id d = i \<and> job_owner d = pk"
  by (auto simp: read_job_def find_Some_iff split: if_splits option.splits)

lemma apply_status_key:
  "job_id (apply_status cl today d) = job_id d" "job_owner (apply_status cl today d) = job_owner d"
  by (simp_all add: apply_status_def Let_def)

lemma apply_status_counter:
  "status cl \<in> {''applied'', ''rejected'', ''next_steps''} \<Longrightarrow>
     counter_of (status cl) (apply_status cl today d) = plus1 (counter_of (status cl) d)"
  by (auto simp: apply_status_def Let_def counter_of_def or0_def)

lemma plus1_twice:
  "- (2 ^ 53) \<le> c \<Longrightarrow> c + 2 \<le> 2 ^ 53 \<Longrightarrow> plus1 (plus1 c) = c + 2"
  by (simp add: plus1_def)

lemma apply_status_comments:
  "comments (apply_status cl today d) =
     Some (upgrade_comments today (comments d)
           @ (if status cl = ''comment_only''
              then [Entry \<lparr>date = today, note' = take 280 (summary cl)\<rparr>] else []))"
  by (simp add: apply_status_def Let_def)

lemma apply_status_other_counter:
  "status cl = ''comment_only'' \<Longrightarrow> counter_of s (apply_status cl today d) = counter_of s d"
  by (simp add: apply_status_def Let_def counter_of_def)

lemma toLowerCase_eq_Nil: "toLowerCase s = [] \<longleftrightarrow> s = []"
  by (simp add: toLowerCase_def)

lemma upsertJobStatus_applies:
  assumes "\<not> skips ownerRaw cl" "\<not> job_read_fails jobs (rollup_key ownerRaw cl)"
  shows "upsertJobStatus (Some jobs) ownerRaw (Some cl) today =
     (let d0 = (case read_job jobs (fst (rollup_key ownerRaw cl)) (snd (rollup_key ownerRaw cl)) of
                  Resource d \<Rightarrow> d
                | _ \<Rightarrow> new_JobDoc (fst (rollup_key ownerRaw cl)) (snd (rollup_key ownerRaw cl))
                        (trim (company_name cl)) today);
          d1 = apply_status cl today d0
      in Inr (Some d1, Some (upsert_job jobs d1)))"
  using assms
  by (auto simp: upsertJobStatus_def skips_def rollup_key_def Let_def toLowerCase_eq_Nil read_job_def
      split: read_result.splits option.splits)

lemma upsertJobStatus_skips:
  "skips ownerRaw cl \<Longrightarrow> upsertJobStatus (Some jobs) ownerRaw (Some cl) today = Inr (None, Some jobs)"
  by (auto simp: upsertJobStatus_def skips_def Let_def toLowerCase_eq_Nil)

lemma not_skips_iff:
  "\<not> skips ownerRaw cl \<longleftrightarrow>
     is_job_related cl \<and> status cl \<in> {''applied'', ''rejected'', ''next_steps'', ''comment_only''}
     \<and> trim (company_name cl) \<noteq> [] \<and> trim ownerRaw \<noteq> []"
  by (auto simp: skips_def)

lemma upsertJobStatus_once:
  assumes ns: "\<not> skips ownerRaw cl" and nf: "\<not> job_read_fails jobs (rollup_key ownerRaw cl)"
  shows "\<exists>d1. upsertJobStatus (Some jobs) ownerRaw (Some cl) today
               = Inr (Some d1, Some (upsert_job jobs d1))
     \<and> (job_id d1, job_owner d1) = rollup_key ownerRaw cl
     \<and> read_job (upsert_job jobs d1) (fst (rollup_key ownerRaw cl)) (snd (rollup_key ownerRaw cl))
         = Resource d1
     \<and> job_read_fails (upsert_job jobs d1) = job_read_fails jobs
     \<and> (status cl \<in> {''applied'', ''rejected'', ''next_steps''} \<longrightarrow>
          counter_of (status cl) d1
            = plus1 (stored_counter jobs (rollup_key ownerRaw cl) (status cl)))
     \<and> comments d1 =
          Some (upgrade_comments today (stored_comments jobs (rollup_key ownerRaw cl))
                @ (if status cl = ''comment_only''
                   then [Entry \<lparr>date = today, note' = take 280 (summary cl)\<rparr>] else []))"
proof -
  let ?k = "rollup_key ownerRaw cl"
  let ?d0 = "case read_job jobs (fst ?k) (snd ?k) of
                  Resource d \<Rightarrow> d
                | _ \<Rightarrow> new_JobDoc (fst ?k) (snd ?k) (trim (company_name cl)) today"
  let ?d1 = "apply_status cl today ?d0"
  have run: "upsertJobStatus (Some jobs) ownerRaw (Some cl) today
      = Inr (Some ?d1, Some (upsert_job jobs ?d1))"
    using upsertJobStatus_applies[OF ns nf, of today] by (simp add: Let_def)
  have key0: "(job_id ?d0, job_owner ?d0) = ?k"
    by (cases "read_job jobs (fst ?k) (snd ?k)")
       (auto dest: read_job_Resource_key simp: new_JobDoc_def)
  then have key1: "(job_id ?d1, job_owner ?d1) = ?k"
    by (simp add: apply_status_key)
  have rd: "read_job (upsert_job jobs ?d1) (fst ?k) (snd ?k) = Resource ?d1"
    using read_job_upsert_job[of jobs ?d1] nf key1 by (metis fst_conv snd_conv)
  have c0: "counter_of s ?d0 = stored_counter jobs ?k s"
    if "s \<in> {''applied'', ''rejected'', ''next_steps''}" for s
    using that
    by (cases "read_job jobs (fst ?k) (snd ?k)")
       (auto simp: stored_counter_def new_JobDoc_def counter_of_def or0_def)
  have cnt: "status cl \<in> {''applied'', ''rejected'', ''next_steps''} \<longrightarrow>
          counter_of (status cl) ?d1 = plus1 (stored_counter jobs ?k (status cl))"
    using apply_status_counter[of cl today ?d0] c0[of "status cl"] by simp
  have cm0: "upgrade_comments today (comments ?d0) = upgrade_comments today (stored_comments jobs ?k)"
    by (cases "read_job jobs (fst ?k) (snd ?k)")
       (auto simp: stored_comments_def new_JobDoc_def)
  have cm: "comments ?d1 =
          Some (upgrade_comments today (stored_comments jobs ?k)
                @ (if status cl = ''comment_only''
                   then [Entry \<lparr>date = today, note' = take 280 (summary cl)\<rparr>] else []))"
    using apply_status_comments[of cl today ?d0] cm0 by simp
  from run key1 rd cnt cm job_read_fails_upsert_job[of jobs ?d1] show ?thesis by blast
qed

lemma upgrade_comments_idem:
  "upgrade_comments t' (Some (upgrade_comments t cs @ [Entry e])) = upgrade_comments t cs @ [Entry e]"
  by (cases cs; cases "the cs"; cases "hd (the cs)")
     (auto simp: upgrade_comments_def split: list.splits comment_item.splits option.splits)

text \<open>
  C7: for every owner and classification, \<open>upsertJobStatus\<close> returns \<open>null\<close> and leaves the
  rollup container as it was exactly when a skip condition holds: \<open>is_job_related\<close> is false,
  or the status is \<open>not_job_related\<close>, or the status is outside the four actionable values,
  or the company name is blank after trimming, or the owner is blank after trimming.
\<close>

theorem upsertJobStatus_skip:
  "(upsertJobStatus (Some jobs) ownerRaw (Some cl) today = Inr (None, Some jobs))
     = skips ownerRaw cl"
proof (cases "skips ownerRaw cl")
  case True
  then show ?thesis by (simp add: upsertJobStatus_skips)
next
  case False
  show ?thesis
  proof (cases "job_read_fails jobs (rollup_key ownerRaw cl)")
    case True
    with False have "upsertJobStatus (Some jobs) ownerRaw (Some cl) today = Inl CosmosReadError"
      by (auto simp: upsertJobStatus_def skips_def rollup_key_def Let_def toLowerCase_eq_Nil
          read_job_def)
    with False show ?thesis by simp
  next
    case nf: False
    from upsertJobStatus_once[OF False nf, of today] False show ?thesis by auto
  qed
qed

theorem upsertJobStatus_skip_witness:
  "skips ''a@x.com'' \<lparr>is_job_related = False, status = ''applied'', summary = ''s'',
       company_name = ''Acme''\<rparr>
   \<and> upsertJobStatus (Some \<lparr>job_items = [], job_read_fails = (\<lambda>k. False)\<rparr>) ''a@x.com''
       (Some \<lparr>is_job_related = False, status = ''applied'', summary = ''s'',
          company_name = ''Acme''\<rparr>) ''2024-01-01''
     = Inr (None, Some \<lparr>job_items = [], job_read_fails = (\<lambda>k. False)\<rparr>)
   \<and> \<not> skips ''a@x.com'' \<lparr>is_job_related = True, status = ''applied'', summary = ''s'',
       company_name = ''Acme''\<rparr>
   \<and> upsertJobStatus (Some \<lparr>job_items = [], job_read_fails = (\<lambda>k. False)\<rparr>) ''a@x.com''
       (Some \<lparr>is_job_related = True, status = ''applied'', summary = ''s'',
          company_name = ''Acme''\<rparr>) ''2024-01-01''
     \<noteq> Inr (None, Some \<lparr>job_items = [], job_read_fails = (\<lambda>k. False)\<rparr>)"
proof -
  have a: "skips ''a@x.com'' \<lparr>is_job_related = False, status = ''applied'', summary = ''s'',
       company_name = ''Acme''\<rparr>"
    by (simp add: skips_def)
  have b: "\<not> skips ''a@x.com'' \<lparr>is_job_related = True, status = ''applied'', summary = ''s'',
       company_name = ''Acme''\<rparr>"
    by (simp add: skips_def string_eval)
  show ?thesis
    using a b
      upsertJobStatus_skip[of "\<lparr>job_items = [], job_read_fails = (\<lambda>k. False)\<rparr>" "''a@x.com''"
        "\<lparr>is_job_related = False, status = ''applied'', summary = ''s'',
          company_name = ''Acme''\<rparr>" "''2024-01-01''"]
      upsertJobStatus_skip[of "\<lparr>job_items = [], job_read_fails = (\<lambda>k. False)\<rparr>" "''a@x.com''"
        "\<lparr>is_job_related = True, status = ''applied'', summary = ''s'',
          company_name = ''Acme''\<rparr>" "''2024-01-01''"]
    by blast
qed

text \<open>
  C3, as stated, fails in two ways. A classification with the actionable status \<open>applied\<close>,
  a non-blank owner and a non-blank company, but with \<open>is_job_related\<close> false, is skipped:
  the call returns \<open>null\<close>, the container is unchanged, and the counter stays at 0 however
  often the classification is applied. And a counter is a double: from a stored counter of
  \<open>2^53\<close> the sum \<open>2^53 + 1\<close> rounds back to \<open>2^53\<close>, so an application today returns and stores
  the rollup as it was, and the counter does not move however often that is repeated.
\<close>

theorem upsertJobStatus_twice_counterexample:
  "upsertJobStatus (Some \<lparr>job_items = [], job_read_fails = (\<lambda>k. False)\<rparr>) ''a@x.com''
       (Some \<lparr>is_job_related = False, status = ''applied'', summary = ''s'',
          company_name = ''Acme''\<rparr>) ''2024-01-01''
     = Inr (None, Some \<lparr>job_items = [], job_read_fails = (\<lambda>k. False)\<rparr>)
   \<and> stored_counter \<lparr>job_items = [], job_read_fails = (\<lambda>k. False)\<rparr>
        (rollup_key ''a@x.com'' \<lparr>is_job_related = False, status = ''applied'', summary = ''s'',
          company_name = ''Acme''\<rparr>) ''applied'' = 0
   \<and> upsertJobStatus
       (Some
         \<lparr>job_items =
          [\<lparr>job_id = ''a@x.com::acme'', job_owner = ''a@x.com'', job_company_name = ''Acme'',
            applied = Some 9007199254740992, rejected = Some 0, next_steps = Some 0,
            comments = Some [], last_updated = ''2024-01-01''\<rparr>],
        job_read_fails = (\<lambda>k. False)\<rparr>)
       ''a@x.com''
       (Some \<lparr>is_job_related = True, status = ''applied'', summary = ''s'',
          company_name = ''Acme''\<rparr>) ''2024-01-01''
     = Inr (Some
         \<lparr>job_id = ''a@x.com::acme'', job_owner = ''a@x.com'', job_company_name = ''Acme'',
            applied = Some 9007199254740992, rejected = Some 0, next_steps = Some 0,
            comments = Some [], last_updated = ''2024-01-01''\<rparr>,
       Some
         \<lparr>job_items =
          [\<lparr>job_id = ''a@x.com::acme'', job_owner = ''a@x.com'', job_company_name = ''Acme'',
            applied = Some 9007199254740992, rejected = Some 0, next_steps = Some 0,
            comments = Some [], last_updated = ''2024-01-01''\<rparr>],
        job_read_fails = (\<lambda>k. False)\<rparr>)"
  by (simp add: upsertJobStatus_def stored_counter_def read_job_def upsert_job_def
      apply_status_def upgrade_comments_def or0_def plus1_def Let_def string_eval)

text \<open>
  C3 (amended): \<open>upsertJobStatus\<close> is not idempotent. For a classification with
  \<open>is_job_related\<close> true, one of the four actionable statuses, a non-blank owner and a
  non-blank company, and a rollup store whose read of the rollup does not fail, applying it
  twice succeeds twice and after the second application the stored rollup is the second
  result. For \<open>applied\<close>, \<open>rejected\<close> and \<open>next_steps\<close> the matching counter is the stored
  counter (0 when no rollup was stored) with 1 added twice in double arithmetic, which is two
  higher than the stored counter when that is from \<open>-2^53\<close> to \<open>2^53 - 2\<close>. For \<open>comment_only\<close>
  two comment entries have been appended to the normalised stored comments.
\<close>

theorem upsertJobStatus_twice:
  assumes j: "is_job_related cl"
    and s: "status cl \<in> {''applied'', ''rejected'', ''next_steps'', ''comment_only''}"
    and c: "trim (company_name cl) \<noteq> []"
    and ow: "trim ownerRaw \<noteq> []"
    and nf: "\<not> job_read_fails jobs (rollup_key ownerRaw cl)"
  shows "\<exists>d1 jobs1 d2 jobs2.
      upsertJobStatus (Some jobs) ownerRaw (Some cl) today = Inr (Some d1, Some jobs1)
    \<and> upsertJobStatus (Some jobs1) ownerRaw (Some cl) today' = Inr (Some d2, Some jobs2)
    \<and> read_job jobs2 (fst (rollup_key ownerRaw cl)) (snd (rollup_key ownerRaw cl)) = Resource d2
    \<and> (status cl \<in> {''applied'', ''rejected'', ''next_steps''} \<longrightarrow>
          counter_of (status cl) d2
            = plus1 (plus1 (stored_counter jobs (rollup_key ownerRaw cl) (status cl))))
    \<and> (status cl \<in> {''applied'', ''rejected'', ''next_steps''}
          \<and> - (2 ^ 53) \<le> stored_counter jobs (rollup_key ownerRaw cl) (status cl)
          \<and> stored_counter jobs (rollup_key ownerRaw cl) (status cl) + 2 \<le> 2 ^ 53 \<longrightarrow>
          counter_of (status cl) d2
            = stored_counter jobs (rollup_key ownerRaw cl) (status cl) + 2)
    \<and> (status cl = ''comment_only'' \<longrightarrow>
          comments d2 =
            Some (upgrade_comments today (stored_comments jobs (rollup_key ownerRaw cl))
                  @ [Entry \<lparr>date = today, note' = take 280 (summary cl)\<rparr>,
                     Entry \<lparr>date = today', note' = take 280 (summary cl)\<rparr>]))"
proof -
  let ?k = "rollup_key ownerRaw cl"
  have ns: "\<not> skips ownerRaw cl" using j s c ow by (simp add: not_skips_iff)
  from upsertJobStatus_once[OF ns nf, of today] obtain d1 where
    r1: "upsertJobStatus (Some jobs) ownerRaw (Some cl) today
           = Inr (Some d1, Some (upsert_job jobs d1))"
    and rd1: "read_job (upsert_job jobs d1) (fst ?k) (snd ?k) = Resource d1"
    and f1: "job_read_fails (upsert_job jobs d1) = job_read_fails jobs"
    and c1: "status cl \<in> {''applied'', ''rejected'', ''next_steps''} \<longrightarrow>
          counter_of (status cl) d1 = plus1 (stored_counter jobs ?k (status cl))"
    and m1: "comments d1 =
          Some (upgrade_comments today (stored_comments jobs ?k)
                @ (if status cl = ''comment_only''
                   then [Entry \<lparr>date = today, note' = take 280 (summary cl)\<rparr>] else []))"
    by blast
  let ?jobs1 = "upsert_job jobs d1"
  have nf1: "\<not> job_read_fails ?jobs1 ?k" using nf f1 by simp
  from upsertJobStatus_once[OF ns nf1, of today'] obtain d2 where
    r2: "upsertJobStatus (Some ?jobs1) ownerRaw (Some cl) today'
           = Inr (Some d2, Some (upsert_job ?jobs1 d2))"
    and rd2: "read_job (upsert_job ?jobs1 d2) (fst ?k) (snd ?k) = Resource d2"
    and c2: "status cl \<in> {''applied'', ''rejected'', ''next_steps''} \<longrightarrow>
          counter_of (status cl) d2 = plus1 (stored_counter ?jobs1 ?k (status cl))"
    and m2: "comments d2 =
          Some (upgrade_comments today' (stored_comments ?jobs1 ?k)
                @ (if status cl = ''comment_only''
                   then [Entry \<lparr>date = today', note' = take 280 (summary cl)\<rparr>] else []))"
    by blast
  have sc1: "stored_counter ?jobs1 ?k (status cl) = counter_of (status cl) d1"
    using rd1 by (simp add: stored_counter_def)
  have cnt: "status cl \<in> {''applied'', ''rejected'', ''next_steps''} \<longrightarrow>
          counter_of (status cl) d2 = plus1 (plus1 (stored_counter jobs ?k (status cl)))"
    using c1 c2 sc1 by auto
  have safe: "status cl \<in> {''applied'', ''rejected'', ''next_steps''}
          \<and> - (2 ^ 53) \<le> stored_counter jobs ?k (status cl)
          \<and> stored_counter jobs ?k (status cl) + 2 \<le> 2 ^ 53 \<longrightarrow>
          counter_of (status cl) d2 = stored_counter jobs ?k (status cl) + 2"
    using cnt plus1_twice[of "stored_counter jobs ?k (status cl)"] by auto
  have sm1: "stored_comments ?jobs1 ?k = comments d1"
    using rd1 by (simp add: stored_comments_def)
  have cm: "status cl = ''comment_only'' \<longrightarrow>
          comments d2 =
            Some (upgrade_comments today (stored_comments jobs ?k)
                  @ [Entry \<lparr>date = today, note' = take 280 (summary cl)\<rparr>,
                     Entry \<lparr>date = today', note' = take 280 (summary cl)\<rparr>])"
    using m1 m2 sm1 by (simp add: upgrade_comments_idem)
  from r1 r2 rd2 cnt safe cm show ?thesis by blast
qed

theorem upsertJobStatus_twice_witness:
  "\<exists>d1 jobs1 d2 jobs2.
      upsertJobStatus (Some \<lparr>job_items = [], job_read_fails = (\<lambda>k. False)\<rparr>) ''a@x.com''
        (Some \<lparr>is_job_related = True, status = ''applied'', summary = ''s'',
           company_name = ''Acme Corp''\<rparr>) ''2024-01-01'' = Inr (Some d1, Some jobs1)
    \<and> upsertJobStatus (Some jobs1) ''a@x.com''
        (Some \<lparr>is_job_related = True, status = ''applied'', summary = ''s'',
           company_name = ''Acme Corp''\<rparr>) ''2024-01-02'' = Inr (Some d2, Some jobs2)
    \<and> read_job jobs2 ''a@x.com::acme_corp'' ''a@x.com'' = Resource d2
    \<and> counter_of ''applied'' d2 = 2"
proof -
  let ?cl = "\<lparr>is_job_related = True, status = ''applied'', summary = ''s'',
           company_name = ''Acme Corp''\<rparr>"
  let ?jobs = "\<lparr>job_items = [], job_read_fails = (\<lambda>k. False)\<rparr>"
  have c: "trim (company_name ?cl) \<noteq> []" by (simp add: string_eval)
  have ow: "trim ''a@x.com'' \<noteq> []" by (simp add: string_eval)
  have k: "rollup_key ''a@x.com'' ?cl = (''a@x.com::acme_corp'', ''a@x.com'')"
    by (simp add: rollup_key_def string_eval)
  have z: "stored_counter ?jobs (''a@x.com::acme_corp'', ''a@x.com'') ''applied'' = 0"
    by (simp add: stored_counter_def read_job_def)
  have j: "is_job_related ?cl" by simp
  have s: "status ?cl \<in> {''applied'', ''rejected'', ''next_steps'', ''comment_only''}" by simp
  have nf: "\<not> job_read_fails ?jobs (rollup_key ''a@x.com'' ?cl)" by simp
  from upsertJobStatus_twice[OF j s c ow nf, of "''2024-01-01''" "''2024-01-02''"]
  obtain d1 jobs1 d2 jobs2 where
    r1: "upsertJobStatus (Some ?jobs) ''a@x.com'' (Some ?cl) ''2024-01-01''
           = Inr (Some d1, Some jobs1)"
    and r2: "upsertJobStatus (Some jobs1) ''a@x.com'' (Some ?cl) ''2024-01-02''
           = Inr (Some d2, Some jobs2)"
    and rd: "read_job jobs2 (fst (rollup_key ''a@x.com'' ?cl)) (snd (rollup_key ''a@x.com'' ?cl))
           = Resource d2"
    and cnt: "status ?cl \<in> {''applied'', ''rejected'', ''next_steps''}
          \<and> - (2 ^ 53) \<le> stored_counter ?jobs (rollup_key ''a@x.com'' ?cl) (status ?cl)
          \<and> stored_counter ?jobs (rollup_key ''a@x.com'' ?cl) (status ?cl) + 2 \<le> 2 ^ 53 \<longrightarrow>
          counter_of (status ?cl) d2
            = stored_counter ?jobs (rollup_key ''a@x.com'' ?cl) (status ?cl) + 2"
    by blast
  from cnt have "counter_of ''applied'' d2 = 2" by (simp add: k z)
  moreover from rd have "read_job jobs2 ''a@x.com::acme_corp'' ''a@x.com'' = Resource d2"
    by (simp add: k)
  ultimately show ?thesis using r1 r2 by blast
qed

text \<open>
  C9: for a classification with status \<open>comment_only\<close> that passes the skip checks (and a
  rollup store whose read of the rollup does not fail), the call succeeds and the comments
  of the resulting, stored rollup are the normalised stored comments, as many as were
  stored, followed by exactly one entry, whose date is today and whose note is the first 280
  characters of the summary; the note has \<open>min 280 (length summary)\<close> characters, so exactly
  280 for a summary of 500 characters.
\<close>

theorem upsertJobStatus_comment_only:
  assumes s: "status cl = ''comment_only''"
    and ns: "\<not> skips ownerRaw cl"
    and nf: "\<not> job_read_fails jobs (rollup_key ownerRaw cl)"
  shows "\<exists>d1.
      upsertJobStatus (Some jobs) ownerRaw (Some cl) today
        = Inr (Some d1, Some (upsert_job jobs d1))
    \<and> comments d1 =
        Some (upgrade_comments today (stored_comments jobs (rollup_key ownerRaw cl))
              @ [Entry \<lparr>date = today, note' = take 280 (summary cl)\<rparr>])
    \<and> length (upgrade_comments today (stored_comments jobs (rollup_key ownerRaw cl)))
        = (case stored_comments jobs (rollup_key ownerRaw cl) of
             Some xs \<Rightarrow> length xs | None \<Rightarrow> 0)
    \<and> stored_comments (upsert_job jobs d1) (rollup_key ownerRaw cl) = comments d1
    \<and> length (take 280 (summary cl)) = min 280 (length (summary cl))
    \<and> (length (summary cl) = 500 \<longrightarrow> length (take 280 (summary cl)) = 280)"
proof -
  let ?k = "rollup_key ownerRaw cl"
  from upsertJobStatus_once[OF ns nf, of today] s obtain d1 where
    r1: "upsertJobStatus (Some jobs) ownerRaw (Some cl) today
           = Inr (Some d1, Some (upsert_job jobs d1))"
    and rd1: "read_job (upsert_job jobs d1) (fst ?k) (snd ?k) = Resource d1"
    and m1: "comments d1 =
          Some (upgrade_comments today (stored_comments jobs ?k)
                @ [Entry \<lparr>date = today, note' = take 280 (summary cl)\<rparr>])"
    by auto
  have len: "length (upgrade_comments today cs) = (case cs of Some xs \<Rightarrow> length xs | None \<Rightarrow> 0)"
    for cs
    by (auto simp: upgrade_comments_def split: option.splits list.splits comment_item.splits)
  have sm: "stored_comments (upsert_job jobs d1) ?k = comments d1"
    using rd1 by (simp add: stored_comments_def)
  have l: "length (take 280 (summary cl)) = min 280 (length (summary cl))
    \<and> (length (summary cl) = 500 \<longrightarrow> length (take 280 (summary cl)) = 280)"
    by auto
  from r1 m1 len[of "stored_comments jobs ?k"] sm l show ?thesis by blast
qed

theorem upsertJobStatus_comment_only_witness:
  "\<exists>d1.
      upsertJobStatus (Some \<lparr>job_items = [], job_read_fails = (\<lambda>k. False)\<rparr>) ''a@x.com''
        (Some \<lparr>is_job_related = True, status = ''comment_only'',
           summary = replicate 500 (CHR ''x''), company_name = ''Acme''\<rparr>) ''2024-01-01''
        = Inr (Some d1, Some (upsert_job \<lparr>job_items = [], job_read_fails = (\<lambda>k. False)\<rparr> d1))
    \<and> comments d1 = Some [Entry \<lparr>date = ''2024-01-01'', note' = replicate 280 (CHR ''x'')\<rparr>]
    \<and> length (replicate 280 (CHR ''x'')) = 280"
proof -
  let ?cl = "\<lparr>is_job_related = True, status = ''comment_only'',
           summary = replicate 500 (CHR ''x''), company_name = ''Acme''\<rparr>"
  let ?jobs = "\<lparr>job_items = [], job_read_fails = (\<lambda>k. False)\<rparr>"
  have ns: "\<not> skips ''a@x.com'' ?cl" by (simp add: skips_def string_eval)
  have z: "stored_comments ?jobs (rollup_key ''a@x.com'' ?cl) = Some []"
    by (simp add: stored_comments_def read_job_def)
  have s: "status ?cl = ''comment_only''" by simp
  have nf: "\<not> job_read_fails ?jobs (rollup_key ''a@x.com'' ?cl)" by simp
  from upsertJobStatus_comment_only[OF s ns nf, of "''2024-01-01''"]
  obtain d1 where
    r1: "upsertJobStatus (Some ?jobs) ''a@x.com'' (Some ?cl) ''2024-01-01''
           = Inr (Some d1, Some (upsert_job ?jobs d1))"
    and m1: "comments d1 =
        Some (upgrade_comments ''2024-01-01'' (stored_comments ?jobs (rollup_key ''a@x.com'' ?cl))
              @ [Entry \<lparr>date = ''2024-01-01'', note' = take 280 (summary ?cl)\<rparr>])"
    by blast
  from m1 have "comments d1 = Some [Entry \<lparr>date = ''2024-01-01'', note' = replicate 280 (CHR ''x'')\<rparr>]"
    by (simp add: z upgrade_comments_def)
  with r1 show ?thesis by auto
qed

section \<open>Classifier: the claims\<close>

text \<open>
  C6, as stated, fails: the parsed content is returned without any check against the
  schema. For a 2xx reply whose content is the JSON text of the empty object, the call
  fails in the sense of the claim (the parsed value does not conform), yet the result is the
  empty object, not \<open>null\<close>.
\<close>

theorem classifyEmail_schema_counterexample:
  "fst (classifyEmail (Some ''sk'') [''{}'' \<mapsto> JObj []]
         (Responded \<lparr>http_status = 200,
            data = \<lparr>error_message = None, error_code = None, content = Some ''{}''\<rparr>\<rparr>))
     = Some (JObj [])
   \<and> \<not> is_null (Some (JObj []))
   \<and> call_failed_spec [''{}'' \<mapsto> JObj []]
         (Responded \<lparr>http_status = 200,
            data = \<lparr>error_message = None, error_code = None, content = Some ''{}''\<rparr>\<rparr>)"
  by (simp add: classifyEmail_def response_ok_def is_null_def call_failed_spec_def conforms_def)

text \<open>
  C6 (amended): \<open>classifyEmail\<close> returns \<open>null\<close> exactly when no API key is configured, the
  transport fails, the response is not 2xx, the content is empty, the content is not
  parseable JSON, or the content is the JSON text \<open>null\<close>. In every other case it returns
  the parsed content unchanged, whether or not it conforms to the schema. It sends no
  request when no API key is configured and one request otherwise.
\<close>

theorem classifyEmail_null_exactly:
  "is_null (fst (classifyEmail OPENAI_API_KEY JSON_parse reply))
     = gives_null OPENAI_API_KEY JSON_parse reply
   \<and> (\<not> gives_null OPENAI_API_KEY JSON_parse reply \<longrightarrow>
        fst (classifyEmail OPENAI_API_KEY JSON_parse reply) = JSON_parse (reply_content reply))
   \<and> snd (classifyEmail OPENAI_API_KEY JSON_parse reply)
     = (if OPENAI_API_KEY = None \<or> OPENAI_API_KEY = Some [] then 0 else 1)"
  by (auto simp: classifyEmail_def is_null_def gives_null_def reply_content_def
      split: fetched.splits option.splits)

theorem classifyEmail_null_exactly_witness:
  "\<not> gives_null (Some ''sk'') [''{}'' \<mapsto> JObj []]
         (Responded \<lparr>http_status = 200,
            data = \<lparr>error_message = None, error_code = None, content = Some ''{}''\<rparr>\<rparr>)
   \<and> classifyEmail (Some ''sk'') [''{}'' \<mapsto> JObj []]
         (Responded \<lparr>http_status = 200,
            data = \<lparr>error_message = None, error_code = None, content = Some ''{}''\<rparr>\<rparr>)
     = (Some (JObj []), 1)
   \<and> gives_null (Some ''sk'') [''{}'' \<mapsto> JObj []]
         (Responded \<lparr>http_status = 200,
            data = \<lparr>error_message = None, error_code = None, content = Some ''{ok''\<rparr>\<rparr>)
   \<and> classifyEmail (Some ''sk'') [''{}'' \<mapsto> JObj []]
         (Responded \<lparr>http_status = 200,
            data = \<lparr>error_message = None, error_code = None, content = Some ''{ok''\<rparr>\<rparr>)
     = (None, 1)"
proof -
  let ?P = "[''{}'' \<mapsto> JObj []]"
  let ?good = "Responded \<lparr>http_status = 200,
            data = \<lparr>error_message = None, error_code = None, content = Some ''{}''\<rparr>\<rparr>"
  let ?bad = "Responded \<lparr>http_status = 200,
            data = \<lparr>error_message = None, error_code = None, content = Some ''{ok''\<rparr>\<rparr>"
  have g: "\<not> gives_null (Some ''sk'') ?P ?good"
    by (simp add: gives_null_def response_ok_def)
  have b: "gives_null (Some ''sk'') ?P ?bad"
    by (simp add: gives_null_def response_ok_def)
  have pg: "?P (reply_content ?good) = Some (JObj [])" by (simp add: reply_content_def)
  from classifyEmail_null_exactly[of "Some ''sk''" ?P ?good] g pg
  have 1: "classifyEmail (Some ''sk'') ?P ?good = (Some (JObj []), 1)"
    by (simp add: prod_eq_iff)
  from classifyEmail_null_exactly[of "Some ''sk''" ?P ?bad] b
  have 2: "classifyEmail (Some ''sk'') ?P ?bad = (None, 1)"
    by (auto simp: prod_eq_iff is_null_def classifyEmail_def response_ok_def)
  from g b 1 2 show ?thesis by blast
qed

section \<open>Sync engine: the claims\<close>

lemma find_upsert_email_list:
  "find (\<lambda>d. id' d = id' doc \<and> owner d = owner doc) (upsert_email_list ds doc) = Some doc"
  by (induction ds) auto



lemma carry_forward_key:
  "id' (carry_forward ex doc) = id' doc" "owner (carry_forward ex doc) = owner doc"
  by (simp_all add: carry_forward_def split: option.splits)

lemma new_doc_key: "id' (new_doc e ownerEmail m) = msg_id m" "owner (new_doc e ownerEmail m) = ownerEmail"
  by (simp_all add: new_doc_def)



lemma new_doc_internalDate: "internalDate (new_doc e ownerEmail m) = internalDateMs e m"
  by (simp add: new_doc_def)

lemma carry_forward_internalDate: "internalDate (carry_forward ex doc) = internalDate doc"
  by (simp add: carry_forward_def split: option.splits)









lemma classifyEmailAndUpsert_frame:
  "classifyEmailAndUpsert e d w = (r, w') \<Longrightarrow>
     secrets w' = secrets w \<and> emailContainer w' = emailContainer w"
  by (auto simp: classifyEmailAndUpsert_def Let_def
      split: option.splits if_splits prod.splits sum.splits)

lemma process_message_shape:
  assumes "emailContainer w \<noteq> None"
  shows "\<exists>w' d. process_message e ownerEmail m (w, mx, docs)
            = (w', max mx (internalDateMs e m), docs @ [d])
          \<and> secrets w' = secrets w \<and> emailContainer w' \<noteq> None"
proof -
  from assms obtain ec where ec: "emailContainer w = Some ec" by auto
  let ?ex = "case read_email ec (id' (new_doc e ownerEmail m)) ownerEmail of
                    Resource d \<Rightarrow> Some d
                  | NotFound \<Rightarrow> None
                  | ReadError \<Rightarrow> None"
  let ?doc = "carry_forward ?ex (new_doc e ownerEmail m)"
  let ?w1 = "w\<lparr>emailContainer := Some (upsert_email ec ?doc)\<rparr>"
  obtain r w2 where c: "classifyEmailAndUpsert e ?doc ?w1 = (r, w2)" by fastforce
  from classifyEmailAndUpsert_frame[OF c]
  have f: "secrets w2 = secrets w" "emailContainer w2 \<noteq> None" by simp_all
  show ?thesis
    using ec c f
    by (cases r)
       (auto simp: process_message_def Let_def max_def new_doc_internalDate
          carry_forward_internalDate)
qed

lemma observed_max_Nil: "observed_max e s [] = s"
  by (simp add: observed_max_def)

lemma observed_max_Cons:
  "observed_max e s (m # ms) = observed_max e (max s (internalDateMs e m)) ms"
proof -
  let ?B = "internalDateMs e ` set ms"
  let ?a = "internalDateMs e m"
  have fin: "finite ?B" by simp
  have "Max (insert s (insert ?a ?B)) = Max (insert (max s ?a) ?B)"
  proof (cases "?B = {}")
    case True
    then show ?thesis by simp
  next
    case False
    with fin have "Max (insert s (insert ?a ?B)) = max s (max ?a (Max ?B))" by simp
    also have "\<dots> = max (max s ?a) (Max ?B)" by (simp add: max.assoc)
    also from fin False have "\<dots> = Max (insert (max s ?a) ?B)" by simp
    finally show ?thesis .
  qed
  then show ?thesis by (simp add: observed_max_def)
qed

lemma observed_max_ge: "s \<le> observed_max e s ms"
  by (simp add: observed_max_def)

lemma run_messages:
  assumes "emailContainer w \<noteq> None"
  shows "\<exists>w' ds. foldl (\<lambda>acc m. process_message e ownerEmail m acc) (w, mx, docs) ms
            = (w', observed_max e mx ms, docs @ ds)
          \<and> length ds = length ms
          \<and> secrets w' = secrets w \<and> emailContainer w' \<noteq> None"
  using assms
proof (induction ms arbitrary: w mx docs)
  case Nil
  then show ?case by (simp add: observed_max_Nil)
next
  case (Cons m ms)
  from process_message_shape[OF Cons.prems, of e ownerEmail m mx docs]
  obtain w1 d where
    s1: "process_message e ownerEmail m (w, mx, docs)
           = (w1, max mx (internalDateMs e m), docs @ [d])"
    and f1: "secrets w1 = secrets w" and c1: "emailContainer w1 \<noteq> None"
    by blast
  from Cons.IH[OF c1, of "max mx (internalDateMs e m)" "docs @ [d]"]
  obtain w' ds where
    s2: "foldl (\<lambda>acc m. process_message e ownerEmail m acc)
           (w1, max mx (internalDateMs e m), docs @ [d]) ms
           = (w', observed_max e (max mx (internalDateMs e m)) ms, (docs @ [d]) @ ds)"
    and l2: "length ds = length ms"
    and f2: "secrets w' = secrets w1" and c2: "emailContainer w' \<noteq> None"
    by blast
  have "foldl (\<lambda>acc m. process_message e ownerEmail m acc) (w, mx, docs) (m # ms)
      = (w', observed_max e mx (m # ms), docs @ (d # ds))"
    using s1 s2 by (simp add: observed_max_Cons)
  moreover have "length (d # ds) = length (m # ms)" using l2 by simp
  ultimately show ?case using f1 f2 c2 by (metis)
qed

lemma foldl_pages:
  "foldl (\<lambda>acc ms. foldl f acc ms) acc pages = foldl f acc (concat pages)"
  by (induction pages arbitrary: acc) simp_all

lemma loadState_saveState: "loadState (saveState s ownerEmail v) ownerEmail
    = Some ((case loadState s ownerEmail of Some st \<Rightarrow> st
             | None \<Rightarrow> \<lparr>stored_lastInternalDateMs = None\<rparr>)\<lparr>stored_lastInternalDateMs := Some v\<rparr>)"
  by (simp add: loadState_def saveState_def Let_def)

lemma fetch_incremental:
  assumes inc: "queryOverride options = []" and adv: "\<not> skipStateUpdate options"
    and o: "ownerEmail = toLowerCase (trim ownerRaw)"
    and ne: "ownerEmail \<noteq> []"
    and ec: "emailContainer w \<noteq> None"
    and tok: "oauthClient \<or> has_tokens e ownerEmail"
    and ms: "ms = concat (list_messages e (incremental_query w ownerEmail))"
  shows "\<exists>w1. secrets w1 = secrets w
     \<and> fetchAndStoreGmailEmails e oauthClient ownerRaw options w =
        (Inr \<lparr>fetched = length ms, result_owner = Some ownerEmail\<rparr>,
         if ms \<noteq> [] \<and> observed_max e (cursor w ownerEmail) ms > cursor w ownerEmail
         then w1\<lparr>secrets :=
                  saveState (secrets w) ownerEmail (observed_max e (cursor w ownerEmail) ms)\<rparr>
         else w1)"
proof -
  let ?last = "case loadState (secrets w) ownerEmail of
                 None \<Rightarrow> None
               | Some s \<Rightarrow>
                   (case stored_lastInternalDateMs s of
                      None \<Rightarrow> None
                    | Some n \<Rightarrow> if n \<noteq> 0 then Some n else None)"
  have start: "(case ?last of Some n \<Rightarrow> n | None \<Rightarrow> 0) = cursor w ownerEmail"
    by (simp add: cursor_def split: option.splits)
  have query: "(case ?last of Some n \<Rightarrow> After (n div 1000) | None \<Rightarrow> NewerThan7d)
      = incremental_query w ownerEmail"
    by (simp add: incremental_query_def cursor_def split: option.splits)
  from run_messages[OF ec, of e ownerEmail "cursor w ownerEmail" "[]" ms]
  obtain w1 ds where
    loop: "foldl (\<lambda>acc m. process_message e ownerEmail m acc) (w, cursor w ownerEmail, []) ms
             = (w1, observed_max e (cursor w ownerEmail) ms, ds)"
    and len: "length ds = length ms" and sec: "secrets w1 = secrets w"
    by auto
  have pages: "foldl (\<lambda>acc messages.
                  foldl (\<lambda>acc m. process_message e ownerEmail m acc) acc messages)
             (w, cursor w ownerEmail, []) (list_messages e (incremental_query w ownerEmail))
           = (w1, observed_max e (cursor w ownerEmail) ms, ds)"
    using loop by (simp add: foldl_pages ms)
  have empty: "ds = [] \<longleftrightarrow> ms = []" using len by auto
  have "fetchAndStoreGmailEmails e oauthClient ownerRaw options w =
        (Inr \<lparr>fetched = length ms, result_owner = Some ownerEmail\<rparr>,
         if ms \<noteq> [] \<and> observed_max e (cursor w ownerEmail) ms > cursor w ownerEmail
         then w1\<lparr>secrets :=
                  saveState (secrets w) ownerEmail (observed_max e (cursor w ownerEmail) ms)\<rparr>
         else w1)"
    unfolding fetchAndStoreGmailEmails_def Let_def o[symmetric]
    using inc adv ne ec tok
    by (simp add: start query pages empty len sec)
  with sec show ?thesis by blast
qed

lemma fetch_not_started:
  assumes o: "ownerEmail = toLowerCase (trim ownerRaw)"
    and no: "ownerEmail = [] \<or> emailContainer w = None
             \<or> \<not> (oauthClient \<or> has_tokens e ownerEmail)"
  shows "snd (fetchAndStoreGmailEmails e oauthClient ownerRaw options w) = w
     \<and> (\<forall>r. fst (fetchAndStoreGmailEmails e oauthClient ownerRaw options w) = Inr r
            \<longrightarrow> fetched r = 0 \<and> emailContainer w = None)"
  using no unfolding fetchAndStoreGmailEmails_def Let_def o[symmetric]
  by auto

lemma cursor_saveState:
  "secrets w' = saveState s ownerEmail v \<Longrightarrow> cursor w' ownerEmail = v"
  by (simp add: cursor_def loadState_saveState)

lemma cursor_cong: "secrets w' = secrets w \<Longrightarrow> cursor w' ownerEmail = cursor w ownerEmail"
  by (simp add: cursor_def)

text \<open>
  C2: for an incremental run (no query override, cursor advance not suppressed) over the
  messages \<open>ms\<close> that the mailbox lists for the query derived from the stored cursor, the
  cursor store is written only when the run reaches the end of the pagination with at least
  one message and the largest \<open>internalDateMs\<close> observed strictly exceeds the prior cursor
  (0 when none is stored), and what is written is that maximum; the cursor of the owner
  never decreases; when the listing has no message the cursor store is unchanged and a run
  that returns reports \<open>fetched = 0\<close>; a run that returns reports as \<open>fetched\<close> the number of
  messages listed (0 when there is no mail container).
\<close>

theorem incremental_cursor:
  assumes inc: "queryOverride options = []" and adv: "\<not> skipStateUpdate options"
    and o: "ownerEmail = toLowerCase (trim ownerRaw)"
    and ms: "ms = concat (list_messages e (incremental_query w ownerEmail))"
    and run: "fetchAndStoreGmailEmails e oauthClient ownerRaw options w = (res, w')"
  shows "secrets w' =
       (if ownerEmail \<noteq> [] \<and> emailContainer w \<noteq> None
           \<and> (oauthClient \<or> has_tokens e ownerEmail)
           \<and> ms \<noteq> [] \<and> observed_max e (cursor w ownerEmail) ms > cursor w ownerEmail
        then saveState (secrets w) ownerEmail (observed_max e (cursor w ownerEmail) ms)
        else secrets w)
     \<and> cursor w' ownerEmail =
       (if ownerEmail \<noteq> [] \<and> emailContainer w \<noteq> None
           \<and> (oauthClient \<or> has_tokens e ownerEmail)
           \<and> ms \<noteq> [] \<and> observed_max e (cursor w ownerEmail) ms > cursor w ownerEmail
        then observed_max e (cursor w ownerEmail) ms
        else cursor w ownerEmail)
     \<and> cursor w ownerEmail \<le> cursor w' ownerEmail
     \<and> (ms = [] \<longrightarrow> secrets w' = secrets w \<and> (\<forall>r. res = Inr r \<longrightarrow> fetched r = 0))
     \<and> (\<forall>r. res = Inr r \<longrightarrow> fetched r = (if emailContainer w = None then 0 else length ms))"
proof (cases "ownerEmail \<noteq> [] \<and> emailContainer w \<noteq> None
           \<and> (oauthClient \<or> has_tokens e ownerEmail)")
  case False
  then have no: "ownerEmail = [] \<or> emailContainer w = None
             \<or> \<not> (oauthClient \<or> has_tokens e ownerEmail)" by blast
  from fetch_not_started[OF o no, of options] run
  have w: "w' = w" and r: "\<forall>r. res = Inr r \<longrightarrow> fetched r = 0 \<and> emailContainer w = None"
    by simp_all
  from False w r show ?thesis by auto
next
  case True
  let ?M = "observed_max e (cursor w ownerEmail) ms"
  from True fetch_incremental[OF inc adv o _ _ _ ms, of oauthClient] run
  obtain w1 where sec: "secrets w1 = secrets w"
    and res: "res = Inr \<lparr>fetched = length ms, result_owner = Some ownerEmail\<rparr>"
    and w': "w' = (if ms \<noteq> [] \<and> ?M > cursor w ownerEmail
                   then w1\<lparr>secrets := saveState (secrets w) ownerEmail ?M\<rparr> else w1)"
    by auto
  show ?thesis
  proof (cases "ms \<noteq> [] \<and> ?M > cursor w ownerEmail")
    case saved: True
    with w' have s: "secrets w' = saveState (secrets w) ownerEmail ?M" by simp
    from cursor_saveState[OF s] have c: "cursor w' ownerEmail = ?M" .
    from True saved s c res show ?thesis by auto
  next
    case kept: False
    with w' sec have s: "secrets w' = secrets w" by simp
    from cursor_cong[OF s] have c: "cursor w' ownerEmail = cursor w ownerEmail" .
    from True kept s c res show ?thesis by auto
  qed
qed

theorem incremental_cursor_witness:
  "cursor
     \<lparr>emailContainer = Some \<lparr>email_items = [], email_read_fails = (\<lambda>k. False)\<rparr>,
       jobsContainer = None, secrets = Map.empty, classifier_calls = [], requests = []\<rparr>
     ''a@x.com'' = 0
   \<and> cursor (snd (fetchAndStoreGmailEmails
      \<lparr>api_key = None, json_parse = Map.empty,
       fetch_reply = (\<lambda>u. Rejected \<lparr>err_message = [], err_status = None, err_code = None\<rparr>),
       now_ms = 5, now_iso = ''2024-01-02T00:00:00.000Z'', has_tokens = (\<lambda>ownerEmail. True),
       list_messages = (\<lambda>q.
         [[\<lparr>msg_id = ''m1'', msg_headers = [], msg_internalDate = Some 100000,
             msg_snippet = [], msg_body = [], msg_labelIds = []\<rparr>,
           \<lparr>msg_id = ''m2'', msg_headers = [], msg_internalDate = Some 200000,
             msg_snippet = [], msg_body = [], msg_labelIds = []\<rparr>]])\<rparr>
      True ''a@x.com'' \<lparr>queryOverride = [], skipStateUpdate = False\<rparr>
      \<lparr>emailContainer = Some \<lparr>email_items = [], email_read_fails = (\<lambda>k. False)\<rparr>,
       jobsContainer = None, secrets = Map.empty, classifier_calls = [], requests = []\<rparr>))
     ''a@x.com'' = 200000"
proof -
  let ?e = "\<lparr>api_key = None, json_parse = Map.empty,
       fetch_reply = (\<lambda>u. Rejected \<lparr>err_message = [], err_status = None, err_code = None\<rparr>),
       now_ms = 5, now_iso = ''2024-01-02T00:00:00.000Z'', has_tokens = (\<lambda>ownerEmail. True),
       list_messages = (\<lambda>q.
         [[\<lparr>msg_id = ''m1'', msg_headers = [], msg_internalDate = Some 100000,
             msg_snippet = [], msg_body = [], msg_labelIds = []\<rparr>,
           \<lparr>msg_id = ''m2'', msg_headers = [], msg_internalDate = Some 200000,
             msg_snippet = [], msg_body = [], msg_labelIds = []\<rparr>]])\<rparr>"
  let ?w = "\<lparr>emailContainer = Some \<lparr>email_items = [], email_read_fails = (\<lambda>k. False)\<rparr>,
       jobsContainer = None, secrets = Map.empty, classifier_calls = [], requests = []\<rparr>"
  let ?o = "\<lparr>queryOverride = [], skipStateUpdate = False\<rparr>"
  let ?ms = "[\<lparr>msg_id = ''m1'', msg_headers = [], msg_internalDate = Some 100000,
             msg_snippet = [], msg_body = [], msg_labelIds = []\<rparr>,
           \<lparr>msg_id = ''m2'', msg_headers = [], msg_internalDate = Some 200000,
             msg_snippet = [], msg_body = [], msg_labelIds = []\<rparr>]"
  let ?R = "fetchAndStoreGmailEmails ?e True ''a@x.com'' ?o ?w"
  have inc: "queryOverride ?o = []" and adv: "\<not> skipStateUpdate ?o" by simp_all
  have o: "''a@x.com'' = toLowerCase (trim ''a@x.com'')" by (simp add: string_eval)
  have c0: "cursor ?w ''a@x.com'' = 0" by (simp add: cursor_def loadState_def)
  have ms: "?ms = concat (list_messages ?e (incremental_query ?w ''a@x.com''))"
    by (simp add: incremental_query_def c0)
  have M: "observed_max ?e 0 ?ms = 200000"
    by (simp add: observed_max_Cons observed_max_Nil internalDateMs_def)
  have run: "?R = (fst ?R, snd ?R)" by (rule surjective_pairing)
  from incremental_cursor[OF inc adv o ms run]
  have "cursor (snd ?R) ''a@x.com'' = 200000"
    unfolding c0 M by simp
  with c0 show ?thesis by blast
qed

lemma find_upsert_email_other:
  "(i, pk) \<noteq> (id' doc, owner doc) \<Longrightarrow>
     find (\<lambda>d. id' d = i \<and> owner d = pk) (upsert_email_list ds doc)
       = find (\<lambda>d. id' d = i \<and> owner d = pk) ds"
  by (induction ds) auto

lemma carry_forward_classification:
  "classification (carry_forward ex (new_doc e ownerEmail m))
     = (case ex of None \<Rightarrow> None | Some x \<Rightarrow> classification x)"
  by (simp add: carry_forward_def new_doc_def split: option.splits)

lemma process_message_no_key:
  assumes key: "api_key e = None \<or> api_key e = Some []"
    and ec: "emailContainer w = Some ec"
  shows "\<exists>w' mx' docs'.
      process_message e ownerEmail m (w, mx, docs) = (w', mx', docs')
    \<and> emailContainer w' \<noteq> None
    \<and> jobsContainer w' = jobsContainer w
    \<and> requests w' = requests w \<and> classifier_calls w' = classifier_calls w
    \<and> (\<forall>i pk. stored_classification w' i pk = None
              \<or> stored_classification w' i pk = stored_classification w i pk)"
proof -
  let ?ex = "case read_email ec (id' (new_doc e ownerEmail m)) ownerEmail of
                    Resource d \<Rightarrow> Some d
                  | NotFound \<Rightarrow> None
                  | ReadError \<Rightarrow> None"
  let ?doc = "carry_forward ?ex (new_doc e ownerEmail m)"
  let ?w' = "w\<lparr>emailContainer := Some (upsert_email ec ?doc)\<rparr>"
  have run: "process_message e ownerEmail m (w, mx, docs)
      = (?w', if internalDate (new_doc e ownerEmail m) > mx
              then internalDate (new_doc e ownerEmail m) else mx, docs @ [?doc])"
    using key ec by (auto simp: process_message_def Let_def)
  have key_doc: "id' ?doc = msg_id m" "owner ?doc = ownerEmail"
    by (simp_all add: carry_forward_key new_doc_key)
  have sc: "stored_classification ?w' i pk = None
          \<or> stored_classification ?w' i pk = stored_classification w i pk" for i pk
  proof (cases "(i, pk) = (msg_id m, ownerEmail)")
    case True
    then have f: "find (\<lambda>d. id' d = i \<and> owner d = pk) (upsert_email_list (email_items ec) ?doc)
        = Some ?doc"
      using find_upsert_email_list[of ?doc "email_items ec"] key_doc by simp
    have c: "classification ?doc = (case ?ex of None \<Rightarrow> None | Some x \<Rightarrow> classification x)"
      by (rule carry_forward_classification)
    show ?thesis
    proof (cases "read_email ec (id' (new_doc e ownerEmail m)) ownerEmail")
      case (Resource x)
      then have "find (\<lambda>d. id' d = i \<and> owner d = pk) (email_items ec) = Some x"
        using True by (auto simp: read_email_def new_doc_key split: if_splits option.splits)
      with Resource c f ec show ?thesis
        by (simp add: stored_classification_def upsert_email_def)
    next
      case NotFound
      with c f show ?thesis by (simp add: stored_classification_def upsert_email_def)
    next
      case ReadError
      with c f show ?thesis by (simp add: stored_classification_def upsert_email_def)
    qed
  next
    case False
    then have "(i, pk) \<noteq> (id' ?doc, owner ?doc)" using key_doc by simp
    from find_upsert_email_other[OF this, of "email_items ec"] ec show ?thesis
      by (simp add: stored_classification_def upsert_email_def)
  qed
  from run sc show ?thesis by auto
qed

lemma run_messages_no_key:
  assumes key: "api_key e = None \<or> api_key e = Some []"
    and ec: "emailContainer w \<noteq> None"
  shows "\<exists>w' mx' docs'.
      foldl (\<lambda>acc m. process_message e ownerEmail m acc) (w, mx, docs) ms = (w', mx', docs')
    \<and> emailContainer w' \<noteq> None
    \<and> jobsContainer w' = jobsContainer w
    \<and> requests w' = requests w \<and> classifier_calls w' = classifier_calls w
    \<and> (\<forall>i pk. stored_classification w' i pk = None
              \<or> stored_classification w' i pk = stored_classification w i pk)"
  using ec
proof (induction ms arbitrary: w mx docs)
  case Nil
  then show ?case by simp
next
  case (Cons m ms)
  from Cons.prems obtain ec where "emailContainer w = Some ec" by auto
  from process_message_no_key[OF key this, of ownerEmail m mx docs]
  obtain w1 mx1 docs1 where
    s1: "process_message e ownerEmail m (w, mx, docs) = (w1, mx1, docs1)"
    and e1: "emailContainer w1 \<noteq> None"
    and j1: "jobsContainer w1 = jobsContainer w"
    and r1: "requests w1 = requests w" and c1: "classifier_calls w1 = classifier_calls w"
    and k1: "\<forall>i pk. stored_classification w1 i pk = None
              \<or> stored_classification w1 i pk = stored_classification w i pk"
    by blast
  from Cons.IH[OF e1, of mx1 docs1]
  obtain w' mx' docs' where
    s2: "foldl (\<lambda>acc m. process_message e ownerEmail m acc) (w1, mx1, docs1) ms
           = (w', mx', docs')"
    and e2: "emailContainer w' \<noteq> None"
    and j2: "jobsContainer w' = jobsContainer w1"
    and r2: "requests w' = requests w1" and c2: "classifier_calls w' = classifier_calls w1"
    and k2: "\<forall>i pk. stored_classification w' i pk = None
              \<or> stored_classification w' i pk = stored_classification w1 i pk"
    by blast
  have k: "\<forall>i pk. stored_classification w' i pk = None
              \<or> stored_classification w' i pk = stored_classification w i pk"
    using k1 k2 by metis
  have "foldl (\<lambda>acc m. process_message e ownerEmail m acc) (w, mx, docs) (m # ms)
      = (w', mx', docs')"
    using s1 s2 by simp
  with e2 j1 j2 r1 r2 c1 c2 k show ?case by auto
qed

lemma fetch_not_started':
  assumes no: "toLowerCase (trim ownerRaw) = [] \<or> emailContainer w = None
             \<or> \<not> (oauthClient \<or> has_tokens e (toLowerCase (trim ownerRaw)))"
  shows "snd (fetchAndStoreGmailEmails e oauthClient ownerRaw options w) = w"
  using no unfolding fetchAndStoreGmailEmails_def Let_def
  by auto

lemma fetch_started:
  assumes ne: "toLowerCase (trim ownerRaw) \<noteq> []" and ec: "emailContainer w \<noteq> None"
    and tok: "oauthClient \<or> has_tokens e (toLowerCase (trim ownerRaw))"
  shows "\<exists>q start w1 mx ds.
      foldl (\<lambda>acc m. process_message e (toLowerCase (trim ownerRaw)) m acc) (w, start, [])
        (concat (list_messages e q)) = (w1, mx, ds)
    \<and> (snd (fetchAndStoreGmailEmails e oauthClient ownerRaw options w) = w1
       \<or> snd (fetchAndStoreGmailEmails e oauthClient ownerRaw options w)
          = w1\<lparr>secrets := saveState (secrets w1) (toLowerCase (trim ownerRaw)) mx\<rparr>)"
proof -
  define ownerEmail where "ownerEmail = toLowerCase (trim ownerRaw)"
  define last where "last =
              (if queryOverride options = [] then
                 (case loadState (secrets w) ownerEmail of
                    None \<Rightarrow> None
                  | Some s \<Rightarrow>
                      (case stored_lastInternalDateMs s of
                         None \<Rightarrow> None
                       | Some n \<Rightarrow> if n \<noteq> 0 then Some n else None))
               else None)"
  define q where "q = (if queryOverride options \<noteq> [] then Override (trim (queryOverride options))
            else (case last of Some n \<Rightarrow> After (n div 1000) | None \<Rightarrow> NewerThan7d))"
  define start where "start = (case last of Some n \<Rightarrow> n | None \<Rightarrow> (0::int))"
  define f where "f = (\<lambda>acc m. process_message e ownerEmail m acc)"
  obtain w1 mx ds where loop: "foldl f (w, start, []) (concat (list_messages e q)) = (w1, mx, ds)"
    using prod_cases3 by blast
  have pages: "foldl (\<lambda>acc messages. foldl f acc messages) (w, start, []) (list_messages e q)
      = (w1, mx, ds)"
    using loop by (simp add: foldl_pages)
  from ec obtain ec0 where ec0: "emailContainer w = Some ec0" by auto
  have unf: "fetchAndStoreGmailEmails e oauthClient ownerRaw options w =
     (case foldl (\<lambda>acc messages. foldl f acc messages) (w, start, []) (list_messages e q) of
        (w, maxInternalDate, docs) \<Rightarrow>
          if docs = [] then (Inr \<lparr>fetched = 0, result_owner = Some ownerEmail\<rparr>, w)
          else (Inr \<lparr>fetched = length docs, result_owner = Some ownerEmail\<rparr>,
                if queryOverride options = [] \<and> \<not> skipStateUpdate options \<and> maxInternalDate > start
                then w\<lparr>secrets := saveState (secrets w) ownerEmail maxInternalDate\<rparr>
                else w))"
    unfolding fetchAndStoreGmailEmails_def Let_def ownerEmail_def[symmetric]
      last_def[symmetric] q_def[symmetric] start_def[symmetric] f_def[symmetric]
    using ne ec0 tok by (auto simp: ownerEmail_def)
  have "snd (fetchAndStoreGmailEmails e oauthClient ownerRaw options w) = w1
       \<or> snd (fetchAndStoreGmailEmails e oauthClient ownerRaw options w)
          = w1\<lparr>secrets := saveState (secrets w1) ownerEmail mx\<rparr>"
    unfolding unf pages by simp
  with loop show ?thesis unfolding f_def ownerEmail_def by blast
qed

lemma stored_classification_secrets:
  "stored_classification (w\<lparr>secrets := s\<rparr>) i pk = stored_classification w i pk"
  by (simp add: stored_classification_def)

text \<open>
  C10: when no API key is configured, \<open>classifyEmail\<close> returns \<open>null\<close> without sending a
  request, whatever the reply would be; and a sync run, whatever its options and outcome,
  leaves the rollup container as it was, sends no request, does not call \<open>classifyEmail\<close>,
  and classifies no message: the classification stored at any address after the run is
  absent or the one stored there before.
\<close>

theorem no_api_key_no_classification:
  assumes key: "api_key e = None \<or> api_key e = Some []"
    and run: "fetchAndStoreGmailEmails e oauthClient ownerRaw options w = (res, w')"
  shows "classifyEmail (api_key e) (json_parse e) reply = (None, 0)
     \<and> jobsContainer w' = jobsContainer w
     \<and> requests w' = requests w
     \<and> classifier_calls w' = classifier_calls w
     \<and> (stored_classification w' i pk = None
        \<or> stored_classification w' i pk = stored_classification w i pk)"
proof -
  let ?o = "toLowerCase (trim ownerRaw)"
  have c: "classifyEmail (api_key e) (json_parse e) reply = (None, 0)"
    using key by (auto simp: classifyEmail_def)
  from run have w': "w' = snd (fetchAndStoreGmailEmails e oauthClient ownerRaw options w)"
    by simp
  show ?thesis
  proof (cases "?o \<noteq> [] \<and> emailContainer w \<noteq> None \<and> (oauthClient \<or> has_tokens e ?o)")
    case False
    then have "?o = [] \<or> emailContainer w = None \<or> \<not> (oauthClient \<or> has_tokens e ?o)"
      by blast
    from fetch_not_started'[OF this, of options] w' have "w' = w" by simp
    with c show ?thesis by simp
  next
    case True
    then have ne: "?o \<noteq> []" and ec: "emailContainer w \<noteq> None"
      and tok: "oauthClient \<or> has_tokens e ?o" by blast+
    from fetch_started[OF ne ec tok, of options] w'
    obtain q start w1 mx ds where
      loop: "foldl (\<lambda>acc m. process_message e ?o m acc) (w, start, [])
               (concat (list_messages e q)) = (w1, mx, ds)"
      and fin: "w' = w1 \<or> w' = w1\<lparr>secrets := saveState (secrets w1) ?o mx\<rparr>"
      by auto
    from run_messages_no_key[OF key ec, of ?o start "[]" "concat (list_messages e q)"] loop
    have inv: "jobsContainer w1 = jobsContainer w" "requests w1 = requests w"
      "classifier_calls w1 = classifier_calls w"
      "stored_classification w1 i pk = None
        \<or> stored_classification w1 i pk = stored_classification w i pk"
      by auto
    from fin inv c show ?thesis
      by (auto simp: stored_classification_secrets)
  qed
qed

theorem no_api_key_no_classification_witness:
  "classifyEmail None (Map.empty :: string \<Rightarrow> classification option)
     (Rejected \<lparr>err_message = [], err_status = None, err_code = None\<rparr>) = (None, 0)
   \<and> jobsContainer (snd (fetchAndStoreGmailEmails
      \<lparr>api_key = None, json_parse = Map.empty,
       fetch_reply = (\<lambda>u. Rejected \<lparr>err_message = [], err_status = None, err_code = None\<rparr>),
       now_ms = 5, now_iso = ''2024-01-02T00:00:00.000Z'', has_tokens = (\<lambda>ownerEmail. True),
       list_messages = (\<lambda>q.
         [[\<lparr>msg_id = ''m1'', msg_headers = [], msg_internalDate = Some 100000,
             msg_snippet = [], msg_body = [], msg_labelIds = []\<rparr>]])\<rparr>
      True ''a@x.com'' \<lparr>queryOverride = [], skipStateUpdate = False\<rparr>
      \<lparr>emailContainer = Some \<lparr>email_items = [], email_read_fails = (\<lambda>k. False)\<rparr>,
       jobsContainer = Some \<lparr>job_items = [], job_read_fails = (\<lambda>k. False)\<rparr>,
       secrets = Map.empty, classifier_calls = [], requests = []\<rparr>))
     = Some \<lparr>job_items = [], job_read_fails = (\<lambda>k. False)\<rparr>
   \<and> requests (snd (fetchAndStoreGmailEmails
      \<lparr>api_key = None, json_parse = Map.empty,
       fetch_reply = (\<lambda>u. Rejected \<lparr>err_message = [], err_status = None, err_code = None\<rparr>),
       now_ms = 5, now_iso = ''2024-01-02T00:00:00.000Z'', has_tokens = (\<lambda>ownerEmail. True),
       list_messages = (\<lambda>q.
         [[\<lparr>msg_id = ''m1'', msg_headers = [], msg_internalDate = Some 100000,
             msg_snippet = [], msg_body = [], msg_labelIds = []\<rparr>]])\<rparr>
      True ''a@x.com'' \<lparr>queryOverride = [], skipStateUpdate = False\<rparr>
      \<lparr>emailContainer = Some \<lparr>email_items = [], email_read_fails = (\<lambda>k. False)\<rparr>,
       jobsContainer = Some \<lparr>job_items = [], job_read_fails = (\<lambda>k. False)\<rparr>,
       secrets = Map.empty, classifier_calls = [], requests = []\<rparr>)) = []
   \<and> stored_classification (snd (fetchAndStoreGmailEmails
      \<lparr>api_key = None, json_parse = Map.empty,
       fetch_reply = (\<lambda>u. Rejected \<lparr>err_message = [], err_status = None, err_code = None\<rparr>),
       now_ms = 5, now_iso = ''2024-01-02T00:00:00.000Z'', has_tokens = (\<lambda>ownerEmail. True),
       list_messages = (\<lambda>q.
         [[\<lparr>msg_id = ''m1'', msg_headers = [], msg_internalDate = Some 100000,
             msg_snippet = [], msg_body = [], msg_labelIds = []\<rparr>]])\<rparr>
      True ''a@x.com'' \<lparr>queryOverride = [], skipStateUpdate = False\<rparr>
      \<lparr>emailContainer = Some \<lparr>email_items = [], email_read_fails = (\<lambda>k. False)\<rparr>,
       jobsContainer = Some \<lparr>job_items = [], job_read_fails = (\<lambda>k. False)\<rparr>,
       secrets = Map.empty, classifier_calls = [], requests = []\<rparr>)) ''m1'' ''a@x.com'' = None"
proof -
  let ?e = "\<lparr>api_key = None, json_parse = Map.empty,
       fetch_reply = (\<lambda>u. Rejected \<lparr>err_message = [], err_status = None, err_code = None\<rparr>),
       now_ms = 5, now_iso = ''2024-01-02T00:00:00.000Z'', has_tokens = (\<lambda>ownerEmail. True),
       list_messages = (\<lambda>q.
         [[\<lparr>msg_id = ''m1'', msg_headers = [], msg_internalDate = Some 100000,
             msg_snippet = [], msg_body = [], msg_labelIds = []\<rparr>]])\<rparr>"
  let ?w = "\<lparr>emailContainer = Some \<lparr>email_items = [], email_read_fails = (\<lambda>k. False)\<rparr>,
       jobsContainer = Some \<lparr>job_items = [], job_read_fails = (\<lambda>k. False)\<rparr>,
       secrets = Map.empty, classifier_calls = [], requests = []\<rparr>"
  let ?o = "\<lparr>queryOverride = [], skipStateUpdate = False\<rparr>"
  let ?R = "fetchAndStoreGmailEmails ?e True ''a@x.com'' ?o ?w"
  have key: "api_key ?e = None \<or> api_key ?e = Some []" by simp
  have run: "?R = (fst ?R, snd ?R)" by (rule surjective_pairing)
  have s0: "stored_classification ?w ''m1'' ''a@x.com'' = None"
    by (simp add: stored_classification_def)
  from no_api_key_no_classification[OF key run, of "Rejected \<lparr>err_message = [], err_status = None, err_code = None\<rparr>" "''m1''" "''a@x.com''"]
  show ?thesis unfolding s0 by simp
qed

end
